(* ===== verification/Prelude.thy ===== *)
theory Prelude
  imports Main "HOL-Library.Multiset"
begin

text \<open>
  Shared vocabulary of the development of \<^verbatim>\<open>src/src/App.jsx\<close>: the names of the
  string types the component passes around, the collections of rewrite rules the
  component theories fill in, and generic facts on lists and multisets that several
  component proofs use.
\<close>

type_synonym account = string  \<comment> \<open>an Ethereum address as the wallet returns it\<close>
type_synonym msg_text = string \<comment> \<open>the text of a wave\<close>

named_theorems op_simps
  "the effect of each handler and continuation on the fields it writes"

lemma mem_diff_single_other [simp]:
  "t \<noteq> u \<Longrightarrow> t \<in># M - {#u#} \<longleftrightarrow> t \<in># M"
  by (simp add: in_diff_count)

text \<open>
  The number of elements of a multiset that satisfy a predicate: how many continuations
  of one kind are in flight.
\<close>

definition in_flight :: "('a \<Rightarrow> bool) \<Rightarrow> 'a multiset \<Rightarrow> nat" where
  "in_flight P M = size (filter_mset P M)"

lemma in_flight_empty [simp]: "in_flight P {#} = 0"
  by (simp add: in_flight_def)

lemma in_flight_add [simp]:
  "in_flight P (add_mset t M) = in_flight P M + (if P t then 1 else 0)"
  by (simp add: in_flight_def)

lemma in_flight_diff [simp]:
  "t \<in># M \<Longrightarrow> in_flight P (M - {#t#}) = in_flight P M - (if P t then 1 else 0)"
proof -
  assume "t \<in># M"
  then obtain N where "M = add_mset t N"
    by (blast dest: multi_member_split)
  then show ?thesis by (simp add: in_flight_def)
qed

lemma in_flight_member:
  "t \<in># M \<Longrightarrow> (if P t then 1 else 0) \<le> in_flight P M"
  by (auto simp: in_flight_def filter_mset_eq_conv dest: multi_member_split)

lemma in_flight_zero_iff:
  "in_flight P M = 0 \<longleftrightarrow> (\<forall>t. t \<in># M \<longrightarrow> \<not> P t)"
  by (auto simp: in_flight_def filter_mset_eq_conv)

end
