(* ===== verification/Contract.thy ===== *)
theory Contract
  imports Prelude
begin

text \<open>
  The contract client of \<^verbatim>\<open>App.jsx\<close>: the fixed contract address, the binding
  that \<open>setupContract\<close> builds from the injected wallet provider, and the remote
  WavePortal contract the binding talks to. The contract's Solidity source is not part of
  the repository; its interface (\<open>getTotalWaves\<close>, \<open>wave\<close>, \<open>getAllWaves\<close>,
  the \<open>Wave\<close> struct and the \<open>NewWave\<close> event) is modelled from the specification.
\<close>

section \<open>Contract binding\<close>

text \<open>\<open>const contractAddress = "0xA8C9...baE"\<close>, a constant of the component.\<close>

definition contractAddress :: string where
  "contractAddress = ''0xA8C9F60d5582cB73E7eD7efFbCe760Fb6CC53baE''"

text \<open>
  \<open>new ethers.Contract(contractAddress, contractABI, signer)\<close> with
  \<open>signer = provider.getSigner()\<close>: the signer of the provider's first account
  (index 0), whichever account that is when a call is made.
\<close>

record binding =
  target :: string
  signer_index :: nat

text \<open>
  \<open>setupContract\<close> reads the global \<open>ethereum\<close>. When no wallet is injected the
  identifier is unbound, \<open>new Web3Provider(ethereum)\<close> throws a ReferenceError, the
  \<open>catch\<close> logs it and the async function resolves to \<open>undefined\<close>: \<open>None\<close>.
\<close>

definition setupContract :: "bool \<Rightarrow> binding option" where
  "setupContract has_ethereum =
     (if has_ethereum then Some \<lparr>target = contractAddress, signer_index = 0\<rparr> else None)"

text \<open>The gas limit passed with every \<open>wave\<close> transaction.\<close>

definition gasLimit :: nat where
  "gasLimit = 300000"

section \<open>Results of remote calls\<close>

text \<open>
  Every call to the wallet or to the chain returns a promise that resolves or rejects.
  The component never inspects why a call failed (every \<open>catch\<close> only logs), so the
  reasons are kept only to name the cases of the specification's error taxonomy.
\<close>

datatype rpc_error = UserRejected | Reverted | NetworkError

datatype 'a outcome = Ok 'a | Fail rpc_error

section \<open>The remote contract\<close>

text \<open>
  The contract's \<open>Wave\<close> struct as \<open>getAllWaves()\<close> returns it: the sender
  (\<open>waver\<close>), a block timestamp in seconds (a \<open>uint256\<close>, here an integer) and the
  message.
\<close>

record wave_struct =
  waver :: account
  wave_timestamp :: int
  wave_message :: msg_text

text \<open>
  The contract keeps the array of all waves. \<open>wave(message)\<close>, once mined in a block
  with timestamp \<open>t\<close> and sent by \<open>a\<close>, appends \<open>Wave(a, message, t)\<close> and emits
  \<open>NewWave(a, message, t)\<close>; \<open>getTotalWaves()\<close> and \<open>getAllWaves()\<close> read the
  array.
\<close>

type_synonym chain = "wave_struct list"

definition chain_wave :: "account \<Rightarrow> msg_text \<Rightarrow> int \<Rightarrow> wave_struct" where
  "chain_wave a m t = \<lparr>waver = a, wave_timestamp = t, wave_message = m\<rparr>"

definition wave_mined :: "chain \<Rightarrow> wave_struct \<Rightarrow> chain" where
  "wave_mined c w = c @ [w]"

definition contract_getTotalWaves :: "chain \<Rightarrow> nat" where
  "contract_getTotalWaves c = length c"

definition contract_getAllWaves :: "chain \<Rightarrow> wave_struct list" where
  "contract_getAllWaves c = c"

lemmas contract_defs [op_simps] = wave_mined_def contract_getTotalWaves_def contract_getAllWaves_def

end
