(* ===== verification/WaveLog.thy ===== *)
theory WaveLog
  imports Contract
begin

text \<open>
  The wave log of \<^verbatim>\<open>App.jsx\<close> (the React state \<open>allWaves\<close>): the records the
  component displays, the conversion of a contract \<open>Wave\<close> into such a record
  (\<open>getAllWaves\<close>, lines 132--139), and the append of a live \<open>NewWave\<close> event
  (\<open>onNewWave\<close>, lines 168--178). The timestamps become JavaScript \<open>Date\<close>
  objects; their time value and its range are modelled exactly.
\<close>

section \<open>JavaScript dates\<close>

text \<open>
  A \<open>Date\<close> holds a time value in milliseconds or is invalid. \<open>new Date(v)\<close>
  applies TimeClip: a value of magnitude above \<open>8.64 * 10^15\<close> gives an invalid date.
  Every integer of that range is exact in a double, so \<open>int\<close> is a faithful model
  of \<open>timestamp * 1000\<close> wherever the date is valid.
\<close>

datatype js_date = Date int | Invalid_Date

definition max_time_value :: int where
  "max_time_value = 8640000000000000"

definition time_clip :: "int \<Rightarrow> js_date" where
  "time_clip v = (if \<bar>v\<bar> \<le> max_time_value then Date v else Invalid_Date)"

text \<open>\<open>new Date(timestamp * 1000)\<close>, for a timestamp in seconds.\<close>

definition date_of_seconds :: "int \<Rightarrow> js_date" where
  "date_of_seconds ts = time_clip (ts * 1000)"

section \<open>Log records\<close>

text \<open>The object \<open>{address, timestamp, message}\<close> the component keeps per wave.\<close>

record wave_entry =
  address :: account
  timestamp :: js_date
  message :: msg_text

text \<open>The body of the \<open>forEach\<close> in \<open>getAllWaves\<close> (lines 134--138).\<close>

definition clean_wave :: "wave_struct \<Rightarrow> wave_entry" where
  "clean_wave w =
     \<lparr>address = waver w, timestamp = date_of_seconds (wave_timestamp w),
      message = wave_message w\<rparr>"

text \<open>
  \<open>let wavesCleaned = []; waves.forEach(wave => wavesCleaned.push(...))\<close>: the loop
  with its accumulator, one push per element, in order.
\<close>

fun clean_loop :: "wave_entry list \<Rightarrow> wave_struct list \<Rightarrow> wave_entry list" where
  "clean_loop acc [] = acc"
| "clean_loop acc (w # ws) = clean_loop (acc @ [clean_wave w]) ws"

definition wavesCleaned :: "wave_struct list \<Rightarrow> wave_entry list" where
  "wavesCleaned ws = clean_loop [] ws"

text \<open>
  The event handler \<open>onNewWave(from, message, timestamp)\<close> of lines 168--178: a
  functional state update that appends one record to the previous log.
\<close>

definition new_wave_entry :: "account \<Rightarrow> msg_text \<Rightarrow> int \<Rightarrow> wave_entry" where
  "new_wave_entry from msg ts =
     \<lparr>address = from, timestamp = date_of_seconds ts, message = msg\<rparr>"

definition onNewWave :: "wave_entry list \<Rightarrow> account \<Rightarrow> msg_text \<Rightarrow> int \<Rightarrow> wave_entry list" where
  "onNewWave prevState from msg ts = prevState @ [new_wave_entry from msg ts]"

section \<open>Lemmas\<close>

lemma clean_loop_map: "clean_loop acc ws = acc @ map clean_wave ws"
  by (induction ws arbitrary: acc) simp_all

text \<open>
  The event handler and the bulk fetch build the same record from the same wave: the
  event's arguments \<open>(from, message, timestamp)\<close> are the struct's fields in another
  order.
\<close>

lemma new_wave_entry_clean:
  "new_wave_entry (waver w) (wave_message w) (wave_timestamp w) = clean_wave w"
  by (simp add: new_wave_entry_def clean_wave_def)

section \<open>Properties\<close>

text \<open>
  C20. \<open>new Date(timestamp * 1000)\<close> is a valid date holding exactly
  \<open>timestamp * 1000\<close> milliseconds if and only if the timestamp is at most
  \<open>8.64 * 10^12\<close> seconds from the epoch in either direction.
\<close>

theorem date_valid_iff:
  "date_of_seconds ts = Date (ts * 1000) \<longleftrightarrow> \<bar>ts\<bar> \<le> 8640000000000"
  by (auto simp: date_of_seconds_def time_clip_def max_time_value_def abs_mult)

text \<open>
  C35. The two ways the log learns about waves agree: delivering the \<open>NewWave\<close> events of
  a sequence of waves one by one to \<open>onNewWave\<close> (lines 168--178) appends exactly what
  the bulk conversion of \<open>getAllWaves\<close> (lines 134--141) builds from the same
  sequence, record for record and in the same order.
\<close>

theorem events_equal_seed:
  "foldl (\<lambda>l w. onNewWave l (waver w) (wave_message w) (wave_timestamp w)) prev ws =
     prev @ wavesCleaned ws"
  by (induction ws arbitrary: prev)
     (simp_all add: onNewWave_def new_wave_entry_clean wavesCleaned_def clean_loop_map)

end
