(* ===== verification/State.thy ===== *)
theory State
  imports WaveLog
begin

text \<open>
  The state of the \<open>App\<close> component and of its environment. The six
  \<open>useState\<close> hooks of lines 7--12 form the record \<open>app_state\<close>; the running
  application \<open>sys\<close> extends it with what the hooks do not show: whether a wallet is
  injected (\<open>window.ethereum\<close>), whether the component is mounted, whether the
  \<open>NewWave\<close> listener is registered, the async functions suspended at an
  \<open>await\<close> (a multiset of continuations, since several may be in flight at once), the
  alerts shown, the contract's waves on chain, the \<open>NewWave\<close> events emitted for
  the registered listener and not yet delivered to it, and the wallet's side: the accounts
  it exposes to the page (the selected one first) and the transactions it has signed and
  broadcast, each with its sender and message, and the node's pool of those not yet mined.
\<close>

record app_state =
  currentAccount :: account        \<comment> \<open>line 7, \<open>""\<close> when no account is connected\<close>
  mining :: bool                   \<comment> \<open>line 8, the busy flag of the wave button\<close>
  waves :: nat                     \<comment> \<open>line 9, the wave count\<close>
  fetchingWaveLength :: bool       \<comment> \<open>line 10\<close>
  allWaves :: "wave_entry list"    \<comment> \<open>line 11, the wave log\<close>
  value_text :: msg_text           \<comment> \<open>line 12, \<open>value\<close>, the text area\<close>

text \<open>
  The continuation points of the component's async functions: one constructor per
  \<open>await\<close> at which a function can be suspended, carrying what the rest of the
  function uses. \<open>await setupContract(...)\<close> waits on a promise that is already
  settled when it is created, so the binding is computed when the function runs and the
  continuation resumes without input; every other \<open>await\<close> waits on the wallet or
  the chain, which answers with an \<open>outcome\<close>. The call \<open>getAllWaves()\<close> is
  split into the moment the node reads the contract (\<open>GetAll_call\<close> becomes
  \<open>GetAll_reply\<close> with the array read) and the moment the answer reaches the
  component, because other events can happen in between.
\<close>

datatype task =
    Count_setup "binding option"        \<comment> \<open>getWaveCount, line 29\<close>
  | Count_call                          \<comment> \<open>getWaveCount, line 31\<close>
  | Check_call                          \<comment> \<open>checkIfWalletIsConnected, line 57\<close>
  | Wave_setup "binding option" msg_text \<comment> \<open>wave, line 79\<close>
  | Wave_send binding msg_text          \<comment> \<open>wave, line 81\<close>
  | Wave_wait                           \<comment> \<open>wave, line 83\<close>
  | Connect_call                        \<comment> \<open>connectWallet, line 102\<close>
  | GetAll_setup "binding option"       \<comment> \<open>getAllWaves, line 120\<close>
  | GetAll_call                         \<comment> \<open>getAllWaves, line 125, request sent\<close>
  | GetAll_reply "wave_struct list outcome" \<comment> \<open>getAllWaves, line 125, answer in flight\<close>
  | Listen_setup "binding option"       \<comment> \<open>listener effect, line 181\<close>

record sys = app_state +
  has_ethereum :: bool
  mounted :: bool
  listening :: bool
  tasks :: "task multiset"
  alerts :: "string list"
  chain :: chain
  inbox :: "wave_struct list"
  authorized :: "account list"
  sent :: "(account \<times> msg_text) list"
  pool :: "(account \<times> msg_text) multiset"

text \<open>The initial values of the hooks, lines 7--12.\<close>

definition initial_app :: "bool \<Rightarrow> chain \<Rightarrow> sys" where
  "initial_app eth c =
     \<lparr>currentAccount = '''', mining = False, waves = 0, fetchingWaveLength = False,
      allWaves = [], value_text = '''',
      has_ethereum = eth, mounted = True, listening = False, tasks = {#},
      alerts = [], chain = c, inbox = [], authorized = [], sent = [],
      pool = {#}\<rparr>"

text \<open>Suspending at an \<open>await\<close>, and resuming from one.\<close>

definition add_task :: "task \<Rightarrow> sys \<Rightarrow> sys" where
  "add_task t s = s\<lparr>tasks := add_mset t (tasks s)\<rparr>"

definition drop_task :: "task \<Rightarrow> sys \<Rightarrow> sys" where
  "drop_task t s = s\<lparr>tasks := tasks s - {#t#}\<rparr>"

lemmas task_defs [op_simps] = add_task_def drop_task_def

end
