(* ===== verification/Wallet.thy ===== *)
theory Wallet
  imports State
begin

text \<open>
  The wallet session of \<^verbatim>\<open>App.jsx\<close>: \<open>checkIfWalletIsConnected\<close> (lines 40--72),
  which asks the injected provider for the already authorised accounts at mount, and
  \<open>connectWallet\<close> (lines 94--114), which the "Connect Wallet" button calls to ask the
  user. Each is an async function with one \<open>await\<close> on the provider: the first part
  runs when the function is called and either returns or suspends as \<open>Check_call\<close>
  or \<open>Connect_call\<close>; the second part runs when the provider answers.
\<close>

section \<open>Operations\<close>

text \<open>
  \<open>if (accounts.length !== 0) setCurrentAccount(accounts[0])\<close>, shared by both
  functions (lines 60--63 and 104--107).
\<close>

definition set_first_account :: "account list \<Rightarrow> sys \<Rightarrow> sys" where
  "set_first_account accounts s =
     (case accounts of [] \<Rightarrow> s | a # _ \<Rightarrow> s\<lparr>currentAccount := a\<rparr>)"

text \<open>Lines 45--57: without \<open>window.ethereum\<close> the function logs and returns.\<close>

definition checkIfWalletIsConnected :: "sys \<Rightarrow> sys" where
  "checkIfWalletIsConnected s = (if \<not> has_ethereum s then s else add_task Check_call s)"

text \<open>Lines 57--71: the answer to \<open>eth_accounts\<close>; a rejection is caught and logged.\<close>

fun check_resume :: "account list outcome \<Rightarrow> sys \<Rightarrow> sys" where
  "check_resume (Ok accounts) s = set_first_account accounts s"
| "check_resume (Fail e) s = s"

text \<open>Lines 96--102: without a wallet the user is alerted.\<close>

definition connectWallet :: "sys \<Rightarrow> sys" where
  "connectWallet s =
     (if \<not> has_ethereum s then s\<lparr>alerts := alerts s @ [''Get metamask...'']\<rparr>
      else add_task Connect_call s)"

text \<open>
  Lines 102--113: the answer to \<open>eth_requestAccounts\<close>. A user who declines makes the
  request reject, which the \<open>catch\<close> logs.
\<close>

fun connect_resume :: "account list outcome \<Rightarrow> sys \<Rightarrow> sys" where
  "connect_resume (Ok accounts) s = set_first_account accounts s"
| "connect_resume (Fail e) s = s"

section \<open>Lemmas\<close>

lemmas wallet_defs [op_simps] =
  set_first_account_def checkIfWalletIsConnected_def connectWallet_def

text \<open>Each continuation as one case distinction on the wallet's answer.\<close>

lemma check_resume_eq [op_simps]:
  "check_resume r s = (case r of Ok accounts \<Rightarrow> set_first_account accounts s | Fail e \<Rightarrow> s)"
  by (cases r) simp_all

lemma connect_resume_eq [op_simps]:
  "connect_resume r s = (case r of Ok accounts \<Rightarrow> set_first_account accounts s | Fail e \<Rightarrow> s)"
  by (cases r) simp_all

section \<open>Properties\<close>

text \<open>
  C14. \<open>connectWallet\<close> without a wallet shows the alert "Get metamask..." and neither
  sets the account nor sends a request.
\<close>

theorem connect_without_wallet:
  "\<not> has_ethereum s \<Longrightarrow>
     currentAccount (connectWallet s) = currentAccount s \<and> tasks (connectWallet s) = tasks s \<and>
     alerts (connectWallet s) = alerts s @ [''Get metamask...'']"
  by (simp add: connectWallet_def)

theorem connect_without_wallet_witness:
  "\<not> has_ethereum (initial_app False []) \<and>
   currentAccount (connectWallet (initial_app False [])) = '''' \<and>
   tasks (connectWallet (initial_app False [])) = {#} \<and>
   alerts (connectWallet (initial_app False [])) = [''Get metamask...'']"
  using connect_without_wallet [of "initial_app False []"] by (simp add: initial_app_def)

text \<open>
  C16. \<open>checkIfWalletIsConnected\<close> run to completion with a wallet: the account becomes
  the first authorised account when the wallet returns one, and stays as it was when it
  returns none or the request fails; nothing is left in flight.
\<close>

theorem check_connects:
  "has_ethereum s \<Longrightarrow>
     currentAccount (check_resume r (drop_task Check_call (checkIfWalletIsConnected s))) =
       (case r of Ok (a # _) \<Rightarrow> a | _ \<Rightarrow> currentAccount s) \<and>
     tasks (check_resume r (drop_task Check_call (checkIfWalletIsConnected s))) = tasks s"
  by (cases r) (auto simp: op_simps split: list.splits)

theorem check_connects_witness:
  "has_ethereum (initial_app True []) \<and>
   currentAccount (check_resume (Ok [''0xABC'']) (drop_task Check_call
     (checkIfWalletIsConnected (initial_app True [])))) = ''0xABC''"
  using check_connects [of "initial_app True []" "Ok [''0xABC'']"] by (simp add: initial_app_def)

end
