(* ===== verification/Transaction.thy ===== *)
theory Transaction
  imports State
begin

text \<open>
  The transaction handler \<open>wave\<close> of \<^verbatim>\<open>App.jsx\<close> (lines 74--92), bound to the
  "Wave at Me" button, and its busy flag \<open>mining\<close>. The handler has three
  \<open>await\<close>s: on \<open>setupContract\<close> (\<open>Wave_setup\<close>), on the call
  \<open>wave(value, {gasLimit})\<close> that the wallet signs and broadcasts (\<open>Wave_send\<close>),
  and on \<open>waveTxn.wait()\<close> until the transaction is mined (\<open>Wave_wait\<close>).
  The message is the \<open>value\<close> of the render whose button was clicked.
\<close>

section \<open>Operations\<close>

text \<open>Lines 76--79 and 85--87.\<close>

definition wave :: "sys \<Rightarrow> sys" where
  "wave s =
     (if has_ethereum s
      then add_task (Wave_setup (setupContract (has_ethereum s)) (value_text s)) s
      else s)"

text \<open>
  Lines 79--81: with no binding, \<open>wavePortalContract.wave\<close> throws a TypeError that the
  \<open>catch\<close> of lines 88--90 turns into \<open>setMining(false)\<close>; otherwise the call
  goes out to the wallet.
\<close>

fun wave_setup_resume :: "binding option \<Rightarrow> msg_text \<Rightarrow> sys \<Rightarrow> sys" where
  "wave_setup_resume None m s = s\<lparr>mining := False\<rparr>"
| "wave_setup_resume (Some b) m s = add_task (Wave_send b m) s"

text \<open>
  Lines 81--83: once the wallet returns the transaction handle the flag is set and the
  handler waits for the receipt; a refused signature or a failed broadcast is caught
  and clears the flag.
\<close>

fun wave_send_resume :: "unit outcome \<Rightarrow> sys \<Rightarrow> sys" where
  "wave_send_resume (Ok h) s = add_task Wave_wait (s\<lparr>mining := True\<rparr>)"
| "wave_send_resume (Fail e) s = s\<lparr>mining := False\<rparr>"

text \<open>Lines 83--84 and 88--90: mined or failed, the flag is cleared.\<close>

fun wave_wait_resume :: "unit outcome \<Rightarrow> sys \<Rightarrow> sys" where
  "wave_wait_resume (Ok receipt) s = s\<lparr>mining := False\<rparr>"
| "wave_wait_resume (Fail e) s = s\<lparr>mining := False\<rparr>"

section \<open>Lemmas\<close>

lemmas wave_defs [op_simps] = wave_def

text \<open>Each continuation as one case distinction on its input.\<close>

lemma wave_setup_resume_eq [op_simps]:
  "wave_setup_resume b m s =
     (case b of None \<Rightarrow> s\<lparr>mining := False\<rparr> | Some b' \<Rightarrow> add_task (Wave_send b' m) s)"
  by (cases b) simp_all

lemma wave_send_resume_eq [op_simps]:
  "wave_send_resume r s =
     (case r of Ok h \<Rightarrow> add_task Wave_wait (s\<lparr>mining := True\<rparr>) | Fail e \<Rightarrow> s\<lparr>mining := False\<rparr>)"
  by (cases r) simp_all

lemma wave_wait_resume_eq [op_simps]:
  "wave_wait_resume r s = s\<lparr>mining := False\<rparr>"
  by (cases r) simp_all

section \<open>Properties\<close>

text \<open>
  C22. One \<open>wave\<close> run to completion follows the transaction state machine
  Idle, Pending, Idle: the flag is set exactly when the wallet returns a transaction
  handle, and whatever the wallet and the chain answer, the run ends with the flag clear
  and nothing left in flight.
\<close>

theorem wave_lifecycle:
  "has_ethereum s \<Longrightarrow>
   (let s1 = wave_setup_resume (setupContract True) (value_text s)
               (drop_task (Wave_setup (setupContract True) (value_text s)) (wave s));
        s2 = wave_send_resume r1 (drop_task (Wave_send (the (setupContract True)) (value_text s)) s1);
        s3 = (case r1 of Ok h \<Rightarrow> wave_wait_resume r2 (drop_task Wave_wait s2) | Fail e \<Rightarrow> s2)
    in (mining s2 \<longleftrightarrow> r1 = Ok ()) \<and> \<not> mining s3 \<and> tasks s3 = tasks s)"
  by (cases r1) (simp_all add: op_simps setupContract_def)

theorem wave_lifecycle_witness:
  "has_ethereum (initial_app True []) \<and>
   \<not> mining (wave_wait_resume (Ok ()) (drop_task Wave_wait (wave_send_resume (Ok ())
      (drop_task (Wave_send (the (setupContract True)) '''') (wave_setup_resume (setupContract True) ''''
        (drop_task (Wave_setup (setupContract True) '''') (wave (initial_app True []))))))))"
  using wave_lifecycle [of "initial_app True []" "Ok ()" "Ok ()"] by (simp add: initial_app_def)

end
