(* ===== verification/WaveCount.thy ===== *)
theory WaveCount
  imports State
begin

text \<open>
  \<open>getWaveCount\<close> of \<^verbatim>\<open>App.jsx\<close> (lines 26--38): reads \<open>getTotalWaves()\<close>
  into the state \<open>waves\<close>, with the flag \<open>fetchingWaveLength\<close> set while the
  read is in flight. No code of the component calls it (its display, lines 227--237, is
  commented out); it is modelled for its own contract.
\<close>

section \<open>Operations\<close>

text \<open>Lines 28--29: the flag is set before the first \<open>await\<close>.\<close>

definition getWaveCount :: "sys \<Rightarrow> sys" where
  "getWaveCount s =
     add_task (Count_setup (setupContract (has_ethereum s))) (s\<lparr>fetchingWaveLength := True\<rparr>)"

text \<open>
  Line 31: with no binding (no wallet) the call throws a TypeError; the \<open>catch\<close>
  (lines 34--36) clears the flag.
\<close>

fun count_setup_resume :: "binding option \<Rightarrow> sys \<Rightarrow> sys" where
  "count_setup_resume None s = s\<lparr>fetchingWaveLength := False\<rparr>"
| "count_setup_resume (Some b) s = add_task Count_call s"

text \<open>Lines 31--37: \<open>setFetchingWaveLength(false); setWave(Number(count))\<close>.\<close>

fun count_resume :: "nat outcome \<Rightarrow> sys \<Rightarrow> sys" where
  "count_resume (Ok n) s = s\<lparr>fetchingWaveLength := False, waves := n\<rparr>"
| "count_resume (Fail e) s = s\<lparr>fetchingWaveLength := False\<rparr>"

section \<open>Lemmas\<close>

lemmas count_defs [op_simps] = getWaveCount_def

lemma count_setup_resume_eq [op_simps]:
  "count_setup_resume b s =
     (case b of None \<Rightarrow> s\<lparr>fetchingWaveLength := False\<rparr> | Some b' \<Rightarrow> add_task Count_call s)"
  by (cases b) simp_all

lemma count_resume_eq [op_simps]:
  "count_resume r s =
     (case r of Ok n \<Rightarrow> s\<lparr>fetchingWaveLength := False, waves := n\<rparr>
      | Fail e \<Rightarrow> s\<lparr>fetchingWaveLength := False\<rparr>)"
  by (cases r) simp_all

section \<open>Properties\<close>

text \<open>
  C24. \<open>getWaveCount\<close> run to completion always clears its loading flag; the count
  becomes the contract's answer when there is one and is kept when the read fails; nothing
  is left in flight.
\<close>

theorem getWaveCount_completes:
  "has_ethereum s \<Longrightarrow>
     \<not> fetchingWaveLength (count_resume r (drop_task Count_call
        (count_setup_resume (setupContract True) (drop_task (Count_setup (setupContract True))
          (getWaveCount s))))) \<and>
     waves (count_resume r (drop_task Count_call
        (count_setup_resume (setupContract True) (drop_task (Count_setup (setupContract True))
          (getWaveCount s))))) = (case r of Ok n \<Rightarrow> n | Fail e \<Rightarrow> waves s) \<and>
     tasks (count_resume r (drop_task Count_call
        (count_setup_resume (setupContract True) (drop_task (Count_setup (setupContract True))
          (getWaveCount s))))) = tasks s"
  by (cases r) (simp_all add: setupContract_def getWaveCount_def add_task_def drop_task_def)

theorem getWaveCount_completes_witness:
  "has_ethereum (initial_app True []) \<and>
   waves (count_resume (Ok 7) (drop_task Count_call
        (count_setup_resume (setupContract True) (drop_task (Count_setup (setupContract True))
          (getWaveCount (initial_app True [])))))) = 7"
  using getWaveCount_completes [of "initial_app True []" "Ok 7"] by (simp add: initial_app_def)

end
