(* ===== verification/LogSync.thy ===== *)
theory LogSync
  imports State
begin

text \<open>
  How \<^verbatim>\<open>App.jsx\<close> keeps the wave log in step with the contract: the bulk fetch
  \<open>getAllWaves\<close> (lines 116--151), which replaces the log, and the effect of lines
  165--190, which registers \<open>onNewWave\<close> for the contract's \<open>NewWave\<close> events
  and returns a cleanup meant to unregister it. The contract side (a wave mined, its event
  emitted to the registered listener, the event delivered) is modelled from the
  specification.
\<close>

section \<open>Bulk fetch\<close>

text \<open>Lines 118--120 and 145--147.\<close>

definition getAllWaves :: "sys \<Rightarrow> sys" where
  "getAllWaves s =
     (if has_ethereum s then add_task (GetAll_setup (setupContract (has_ethereum s))) s else s)"

text \<open>
  Lines 120--125: with no binding the call throws a TypeError that the \<open>catch\<close>
  logs; otherwise the request goes to the node.
\<close>

fun getall_setup_resume :: "binding option \<Rightarrow> sys \<Rightarrow> sys" where
  "getall_setup_resume None s = s"
| "getall_setup_resume (Some b) s = add_task GetAll_call s"

text \<open>The node reads the contract's array at this moment and answers.\<close>

definition getall_read :: "sys \<Rightarrow> sys" where
  "getall_read s = add_task (GetAll_reply (Ok (contract_getAllWaves (chain s)))) s"

text \<open>Lines 125--150: the answer replaces the log (\<open>setAllWaves(wavesCleaned)\<close>).\<close>

fun getall_reply_resume :: "wave_struct list outcome \<Rightarrow> sys \<Rightarrow> sys" where
  "getall_reply_resume (Ok ws) s = s\<lparr>allWaves := wavesCleaned ws\<rparr>"
| "getall_reply_resume (Fail e) s = s"

section \<open>Event subscription\<close>

text \<open>Lines 180--181: the effect suspends on \<open>setupContract\<close> when a wallet is there.\<close>

definition listener_effect :: "sys \<Rightarrow> sys" where
  "listener_effect s =
     (if has_ethereum s then add_task (Listen_setup (setupContract (has_ethereum s))) s else s)"

text \<open>
  Line 182: \<open>wavePortalContract.on("NewWave", onNewWave)\<close>. With no binding the call
  throws inside the effect, which has no \<open>catch\<close>: the listener is not registered.
\<close>

fun listen_setup_resume :: "binding option \<Rightarrow> sys \<Rightarrow> sys" where
  "listen_setup_resume None s = s"
| "listen_setup_resume (Some b) s = s\<lparr>listening := True\<rparr>"

text \<open>
  Lines 185--189: the cleanup the effect means to install,
  \<open>wavePortalContract.off("NewWave", onNewWave)\<close> when the contract was set up.
\<close>

definition listener_cleanup :: "sys \<Rightarrow> sys" where
  "listener_cleanup s = (if listening s then s\<lparr>listening := False\<rparr> else s)"

text \<open>
  What an effect function returns, as React sees it at unmount: React calls the value if
  it is a function, and ignores it otherwise.
\<close>

datatype effect_return = Destructor "sys \<Rightarrow> sys" | Not_a_function

text \<open>
  The effect of line 165 is an \<open>async\<close> arrow function: calling it returns a
  \<open>Promise\<close>, not the cleanup of lines 185--189.
\<close>

definition listener_effect_return :: effect_return where
  "listener_effect_return = Not_a_function"

text \<open>Unmounting runs the destructors the effects returned.\<close>

definition unmount :: "sys \<Rightarrow> sys" where
  "unmount s =
     (case listener_effect_return of
        Destructor f \<Rightarrow> f (s\<lparr>mounted := False\<rparr>)
      | Not_a_function \<Rightarrow> s\<lparr>mounted := False\<rparr>)"

section \<open>Events\<close>

text \<open>
  A wave is mined (by this user or any other): the contract appends it and emits
  \<open>NewWave\<close>, which reaches the component only if its listener is registered.
\<close>

definition mine :: "wave_struct \<Rightarrow> sys \<Rightarrow> sys" where
  "mine w s =
     s\<lparr>chain := wave_mined (chain s) w,
       inbox := (if listening s then inbox s @ [w] else inbox s)\<rparr>"

text \<open>
  A transaction of the page's wallet is mined: the contract's \<open>wave(message)\<close> runs with
  \<open>msg.sender\<close> the signing account and \<open>block.timestamp\<close> the block's time, and the
  transaction leaves the pool.
\<close>

definition mine_tx :: "account \<Rightarrow> msg_text \<Rightarrow> int \<Rightarrow> sys \<Rightarrow> sys" where
  "mine_tx a m t s = mine (chain_wave a m t) (s\<lparr>pool := pool s - {#(a, m)#}\<rparr>)"

text \<open>
  The next emitted event reaches \<open>onNewWave(from, message, timestamp)\<close>, which
  appends to the log with a functional update (lines 168--178).
\<close>

definition deliver_event :: "sys \<Rightarrow> sys" where
  "deliver_event s =
     (case inbox s of
        [] \<Rightarrow> s
      | w # ws \<Rightarrow> s\<lparr>inbox := ws,
          allWaves := onNewWave (allWaves s) (waver w) (wave_message w) (wave_timestamp w)\<rparr>)"

text \<open>
  The browser delivers the pending \<open>NewWave\<close> events to \<open>onNewWave\<close> one after
  another until none is left. Each delivery removes one event, so the loop ends: its
  measure is the length of the queue.
\<close>

function drain :: "sys \<Rightarrow> sys" where
  "drain s = (if inbox s = [] then s else drain (deliver_event s))"
  by pat_completeness auto
termination
  by (relation "measure (\<lambda>s. length (inbox s))") (auto simp: deliver_event_def split: list.splits)

section \<open>Lemmas\<close>

declare drain.simps [simp del]

text \<open>What the drain does to the fields it touches, and that it leaves the others alone.\<close>

text \<open>The drain in closed form: it appends the converted pending events and empties the
  inbox, touching nothing else.\<close>

lemma drain_eq:
  "drain s = s\<lparr>allWaves := allWaves s @ map clean_wave (inbox s), inbox := []\<rparr>"
proof (induction s rule: drain.induct)
  case (1 s)
  show ?case
  proof (cases "inbox s")
    case Nil
    then show ?thesis by (simp add: drain.simps [of s])
  next
    case (Cons w ws)
    then have "drain s = drain (deliver_event s)" by (simp add: drain.simps [of s])
    also have "\<dots> = (deliver_event s)\<lparr>allWaves := allWaves (deliver_event s) @
        map clean_wave (inbox (deliver_event s)), inbox := []\<rparr>"
      using "1.IH" Cons by simp
    also have "\<dots> = s\<lparr>allWaves := allWaves s @ map clean_wave (inbox s), inbox := []\<rparr>"
      using Cons by (simp add: deliver_event_def onNewWave_def new_wave_entry_clean)
    finally show ?thesis .
  qed
qed

lemma drain_fields:
  "allWaves (drain s) = allWaves s @ map clean_wave (inbox s) \<and> inbox (drain s) = [] \<and>
   chain (drain s) = chain s \<and> listening (drain s) = listening s \<and> tasks (drain s) = tasks s"
  by (simp add: drain_eq)

lemmas sync_defs [op_simps] =
  getAllWaves_def getall_read_def listener_effect_def listener_cleanup_def unmount_def
  listener_effect_return_def mine_def mine_tx_def deliver_event_def

lemma getall_setup_resume_eq [op_simps]:
  "getall_setup_resume b s = (case b of None \<Rightarrow> s | Some b' \<Rightarrow> add_task GetAll_call s)"
  by (cases b) simp_all

lemma getall_reply_resume_eq [op_simps]:
  "getall_reply_resume r s =
     (case r of Ok ws \<Rightarrow> s\<lparr>allWaves := wavesCleaned ws\<rparr> | Fail e \<Rightarrow> s)"
  by (cases r) simp_all

lemma listen_setup_resume_eq [op_simps]:
  "listen_setup_resume b s = (case b of None \<Rightarrow> s | Some b' \<Rightarrow> s\<lparr>listening := True\<rparr>)"
  by (cases b) simp_all

section \<open>Properties\<close>

text \<open>
  C18. The bulk fetch replaces the log: when \<open>getAllWaves()\<close> answers, the log is
  exactly the converted records in the contract's order (the empty array included); when
  it fails, the log is kept.
\<close>

theorem seed_replaces:
  "allWaves (getall_reply_resume r s) =
     (case r of Ok ws \<Rightarrow> map clean_wave ws | Fail e \<Rightarrow> allWaves s)"
  by (cases r) (simp_all add: wavesCleaned_def clean_loop_map)

text \<open>
  C19. Delivering an event is append-only: the log gains exactly one record at its end,
  the same record the bulk fetch would have built from the contract's \<open>Wave\<close>, and the
  event leaves the queue.
\<close>

theorem deliver_appends:
  "inbox s = w # ws \<Longrightarrow>
     allWaves (deliver_event s) = allWaves s @ [clean_wave w] \<and> inbox (deliver_event s) = ws"
  by (simp add: deliver_event_def onNewWave_def new_wave_entry_clean)

theorem deliver_appends_witness:
  "inbox ((initial_app True [])\<lparr>inbox := [chain_wave ''0xABC'' ''hi'' 1690000000]\<rparr>) =
     [chain_wave ''0xABC'' ''hi'' 1690000000] \<and>
   allWaves (deliver_event ((initial_app True [])\<lparr>inbox := [chain_wave ''0xABC'' ''hi'' 1690000000]\<rparr>)) =
     [clean_wave (chain_wave ''0xABC'' ''hi'' 1690000000)]"
  using deliver_appends [of "(initial_app True [])\<lparr>inbox := [chain_wave ''0xABC'' ''hi'' 1690000000]\<rparr>"
      "chain_wave ''0xABC'' ''hi'' 1690000000" "[]"]
  by (simp add: initial_app_def)

end
