(* ===== verification/Provider.thy ===== *)
theory Provider
  imports State
begin

text \<open>
  The wallet provider behind \<open>window.ethereum\<close>, modelled from the specification's
  wallet capability interface (section 6): it exposes a list of authorised accounts (the
  selected one first) to \<open>eth_accounts\<close>, grants accounts when the user approves
  \<open>eth_requestAccounts\<close>, lets the user switch or revoke accounts at any time, and signs
  and broadcasts a transaction with the account that \<open>provider.getSigner()\<close> designates
  (line 19: index 0, the selected account).
\<close>

section \<open>Operations\<close>

text \<open>
  The user approves a request for accounts, or changes the selection in the extension:
  the accounts exposed to the page become \<open>accs\<close>.
\<close>

definition set_authorized :: "account list \<Rightarrow> sys \<Rightarrow> sys" where
  "set_authorized accs s = s\<lparr>authorized := accs\<rparr>"

text \<open>
  Signing \<open>wave(message)\<close> with the signer of index 0: with no exposed account the signer
  has no address and the request is rejected (\<open>None\<close>); otherwise the transaction is
  broadcast from the selected account: the wallet records it and it joins the node's pool
  of transactions waiting to be mined.
\<close>

definition sign_and_send :: "binding \<Rightarrow> msg_text \<Rightarrow> sys \<Rightarrow> sys option" where
  "sign_and_send b m s =
     (if signer_index b < length (authorized s)
      then (let a = authorized s ! signer_index b in
              Some (s\<lparr>sent := sent s @ [(a, m)], pool := add_mset (a, m) (pool s)\<rparr>))
      else None)"

section \<open>Lemmas\<close>

lemmas provider_defs [op_simps] = set_authorized_def sign_and_send_def Let_def

lemma sign_and_send_SomeD:
  "sign_and_send b m s = Some s' \<Longrightarrow>
     signer_index b < length (authorized s) \<and>
     s' = s\<lparr>sent := sent s @ [(authorized s ! signer_index b, m)],
            pool := add_mset (authorized s ! signer_index b, m) (pool s)\<rparr>"
  by (auto simp: sign_and_send_def Let_def split: if_splits)

end
