(* ===== verification/App.thy ===== *)
theory App
  imports Wallet Transaction WaveCount LogSync Provider
begin

text \<open>
  The running component: its mount, the events that move it (user input, the
  continuations of its async functions resuming in any order, waves mined on chain,
  events delivered, unmount, account switches in the wallet), the states reachable from a
  mount, and the invariants that hold in all of them.
\<close>

section \<open>Mount and steps\<close>

text \<open>
  After the first render React runs the two effects in order: lines 157--160 call
  \<open>checkIfWalletIsConnected()\<close> and then \<open>getAllWaves()\<close> without awaiting
  either, and lines 165--183 start the listener effect.
\<close>

definition mount :: "bool \<Rightarrow> chain \<Rightarrow> sys" where
  "mount eth c = listener_effect (getAllWaves (checkIfWalletIsConnected (initial_app eth c)))"

text \<open>
  One step of the running application. The user can type (\<open>handleValue\<close>, lines
  153--155), click "Wave at Me" while it is enabled (\<open>disabled={mining}\<close>, line 215)
  and click "Connect Wallet" while it is shown (\<open>!currentAccount\<close>, line 221), as long
  as the component is mounted. Any suspended continuation can resume: \<open>eth_accounts\<close>
  answers with the wallet's exposed accounts, \<open>eth_requestAccounts\<close> with the accounts
  the user approves (possibly none, the branch of lines 108--110), the \<open>wave\<close> call
  succeeds once the wallet has signed and broadcast it with the signer its binding
  designates, \<open>getTotalWaves()\<close> answers with the length of the contract's array, and
  every call may fail. The user can switch or revoke accounts in the wallet at any
  time. A transaction the wallet broadcast can be mined, in a block of any time; anyone
  else can get a wave mined; a pending event can be delivered; the component can
  be unmounted.
\<close>

text \<open>Lines 153--155: the text area's \<open>onChange\<close> stores the typed text.\<close>

definition handleValue :: "msg_text \<Rightarrow> sys \<Rightarrow> sys" where
  "handleValue v s = s\<lparr>value_text := v\<rparr>"

lemmas app_defs [op_simps] = handleValue_def

inductive app_step :: "sys \<Rightarrow> sys \<Rightarrow> bool" where
  type_text: "mounted s \<Longrightarrow> app_step s (handleValue v s)"
| click_wave: "mounted s \<Longrightarrow> \<not> mining s \<Longrightarrow> app_step s (wave s)"
| click_connect: "mounted s \<Longrightarrow> currentAccount s = [] \<Longrightarrow> app_step s (connectWallet s)"
| check_done: "Check_call \<in># tasks s \<Longrightarrow>
    app_step s (check_resume (Ok (authorized s)) (drop_task Check_call s))"
| check_fail: "Check_call \<in># tasks s \<Longrightarrow>
    app_step s (check_resume (Fail e) (drop_task Check_call s))"
| connect_done: "Connect_call \<in># tasks s \<Longrightarrow>
    app_step s (connect_resume (Ok accs) (drop_task Connect_call (set_authorized accs s)))"
| connect_fail: "Connect_call \<in># tasks s \<Longrightarrow>
    app_step s (connect_resume (Fail e) (drop_task Connect_call s))"
| wave_setup: "Wave_setup b m \<in># tasks s \<Longrightarrow>
    app_step s (wave_setup_resume b m (drop_task (Wave_setup b m) s))"
| wave_sent: "Wave_send b m \<in># tasks s \<Longrightarrow> sign_and_send b m s = Some s1 \<Longrightarrow>
    app_step s (wave_send_resume (Ok ()) (drop_task (Wave_send b m) s1))"
| wave_send_fail: "Wave_send b m \<in># tasks s \<Longrightarrow>
    app_step s (wave_send_resume (Fail e) (drop_task (Wave_send b m) s))"
| wave_done: "Wave_wait \<in># tasks s \<Longrightarrow>
    app_step s (wave_wait_resume r (drop_task Wave_wait s))"
| count_setup: "Count_setup b \<in># tasks s \<Longrightarrow>
    app_step s (count_setup_resume b (drop_task (Count_setup b) s))"
| count_done: "Count_call \<in># tasks s \<Longrightarrow>
    app_step s (count_resume (Ok (contract_getTotalWaves (chain s))) (drop_task Count_call s))"
| count_fail: "Count_call \<in># tasks s \<Longrightarrow>
    app_step s (count_resume (Fail e) (drop_task Count_call s))"
| getall_setup: "GetAll_setup b \<in># tasks s \<Longrightarrow>
    app_step s (getall_setup_resume b (drop_task (GetAll_setup b) s))"
| getall_read_ok: "GetAll_call \<in># tasks s \<Longrightarrow>
    app_step s (getall_read (drop_task GetAll_call s))"
| getall_read_fail: "GetAll_call \<in># tasks s \<Longrightarrow>
    app_step s (add_task (GetAll_reply (Fail e)) (drop_task GetAll_call s))"
| getall_done: "GetAll_reply r \<in># tasks s \<Longrightarrow>
    app_step s (getall_reply_resume r (drop_task (GetAll_reply r) s))"
| listen_setup: "Listen_setup b \<in># tasks s \<Longrightarrow>
    app_step s (listen_setup_resume b (drop_task (Listen_setup b) s))"
| chain_mine: "app_step s (mine w s)"
| tx_mined: "(a, m) \<in># pool s \<Longrightarrow> app_step s (mine_tx a m t s)"
| deliver: "inbox s \<noteq> [] \<Longrightarrow> app_step s (deliver_event s)"
| unmount: "mounted s \<Longrightarrow> app_step s (unmount s)"
| wallet_switch: "has_ethereum s \<Longrightarrow> app_step s (set_authorized accs s)"

inductive reach :: "sys \<Rightarrow> bool" where
  mounted: "reach (mount eth c)"
| step: "reach s \<Longrightarrow> app_step s s' \<Longrightarrow> reach s'"

section \<open>Kinds of continuation\<close>

fun wave_task :: "task \<Rightarrow> bool" where
  "wave_task (Wave_setup b m) = True"
| "wave_task (Wave_send b m) = True"
| "wave_task Wave_wait = True"
| "wave_task _ = False"

fun seed_task :: "task \<Rightarrow> bool" where
  "seed_task (GetAll_setup b) = True"
| "seed_task GetAll_call = True"
| "seed_task (GetAll_reply r) = True"
| "seed_task _ = False"

fun listen_task :: "task \<Rightarrow> bool" where
  "listen_task (Listen_setup b) = True"
| "listen_task _ = False"

fun count_task :: "task \<Rightarrow> bool" where
  "count_task (Count_setup b) = True"
| "count_task Count_call = True"
| "count_task _ = False"

text \<open>A \<open>wave\<close> call in flight holds the binding \<open>setupContract\<close> gave it: its signer is
  the wallet's account of index 0 (line 19).\<close>

fun signer_ok :: "task \<Rightarrow> bool" where
  "signer_ok (Wave_setup b m) = (case b of None \<Rightarrow> True | Some b' \<Rightarrow> signer_index b' = 0)"
| "signer_ok (Wave_send b m) = (signer_index b = 0)"
| "signer_ok _ = True"

section \<open>Invariants\<close>

text \<open>The busy flag is set only while a transaction is being waited for.\<close>

definition busy_inv :: "sys \<Rightarrow> bool" where
  "busy_inv s \<longleftrightarrow> (mining s \<longrightarrow> Wave_wait \<in># tasks s)"

text \<open>At most one \<open>NewWave\<close> listener, registered or about to be.\<close>

definition listen_inv :: "sys \<Rightarrow> bool" where
  "listen_inv s \<longleftrightarrow> in_flight listen_task (tasks s) + (if listening s then 1 else 0) \<le> 1"

text \<open>Without a wallet nothing is ever requested and nothing changes but the alerts.\<close>

definition inert_inv :: "sys \<Rightarrow> bool" where
  "inert_inv s \<longleftrightarrow> (\<not> has_ethereum s \<longrightarrow>
     tasks s = {#} \<and> inbox s = [] \<and> \<not> listening s \<and> currentAccount s = [] \<and>
     \<not> mining s \<and> allWaves s = [])"

text \<open>\<open>getWaveCount\<close> never runs: its flag and its count keep their initial values.\<close>

definition count_inv :: "sys \<Rightarrow> bool" where
  "count_inv s \<longleftrightarrow>
     \<not> fetchingWaveLength s \<and> waves s = 0 \<and> in_flight count_task (tasks s) = 0"

text \<open>Every transaction waited for was signed and broadcast by the wallet.\<close>

definition tx_inv :: "sys \<Rightarrow> bool" where
  "tx_inv s \<longleftrightarrow> count (tasks s) Wave_wait \<le> length (sent s)"

text \<open>Every \<open>wave\<close> call in flight signs with the wallet's account of index 0.\<close>

definition signer_inv :: "sys \<Rightarrow> bool" where
  "signer_inv s \<longleftrightarrow> (\<forall>t\<in>#tasks s. signer_ok t)"

section \<open>Lemmas\<close>

text \<open>The invariant rule: what mount establishes and every step keeps holds in every
  reachable state.\<close>

text \<open>The case splits that unfold the effect of any step.\<close>

lemmas step_splits = option.splits list.splits outcome.splits if_splits

lemma reach_invariant:
  assumes "reach s"
    and "\<And>eth c. P (mount eth c)"
    and "\<And>s s'. app_step s s' \<Longrightarrow> P s \<Longrightarrow> P s'"
  shows "P s"
  using assms(1) by induction (use assms(2,3) in blast)+

lemma has_ethereum_step: "app_step s s' \<Longrightarrow> has_ethereum s' = has_ethereum s"
  by (induction rule: app_step.induct)
     (auto simp: op_simps split: step_splits)

lemma mount_invs:
  "busy_inv (mount eth c)" "listen_inv (mount eth c)" "inert_inv (mount eth c)"
  "count_inv (mount eth c)" "tx_inv (mount eth c)"
  by (simp_all add: busy_inv_def listen_inv_def inert_inv_def count_inv_def tx_inv_def mount_def
      initial_app_def op_simps)

subsection \<open>Each step keeps each invariant\<close>

lemma busy_inv_step: "app_step s s' \<Longrightarrow> busy_inv s \<Longrightarrow> busy_inv s'"
  by (induction rule: app_step.induct)
     (auto simp: busy_inv_def op_simps split: step_splits)

lemma listen_inv_step: "app_step s s' \<Longrightarrow> listen_inv s \<Longrightarrow> listen_inv s'"
  by (induction rule: app_step.induct)
     (auto simp: listen_inv_def op_simps dest: in_flight_member[where P = listen_task]
           split: step_splits)

lemma inert_inv_step: "app_step s s' \<Longrightarrow> inert_inv s \<Longrightarrow> inert_inv s'"
  by (induction rule: app_step.induct)
     (auto simp: inert_inv_def op_simps split: step_splits)

lemma count_inv_step: "app_step s s' \<Longrightarrow> count_inv s \<Longrightarrow> count_inv s'"
  by (induction rule: app_step.induct)
     (auto simp: count_inv_def op_simps dest: in_flight_member[where P = count_task]
           split: step_splits)

text \<open>Once no bulk fetch is in flight, none is ever started again.\<close>

lemma seed_done_step:
  "app_step s s' \<Longrightarrow> in_flight seed_task (tasks s) = 0 \<Longrightarrow> in_flight seed_task (tasks s') = 0"
  by (induction rule: app_step.induct)
     (auto simp: op_simps dest: in_flight_member[where P = seed_task]
           split: step_splits)

lemma listening_step: "app_step s s' \<Longrightarrow> listening s \<Longrightarrow> listening s'"
  by (induction rule: app_step.induct)
     (auto simp: op_simps split: step_splits)

subsection \<open>In every reachable state\<close>

lemma reach_busy_inv: "reach s \<Longrightarrow> busy_inv s"
  by (rule reach_invariant) (auto intro: mount_invs busy_inv_step)

lemma reach_listen_inv: "reach s \<Longrightarrow> listen_inv s"
  by (rule reach_invariant) (auto intro: mount_invs listen_inv_step)

lemma reach_inert_inv: "reach s \<Longrightarrow> inert_inv s"
  by (rule reach_invariant) (auto intro: mount_invs inert_inv_step)

lemma reach_count_inv: "reach s \<Longrightarrow> count_inv s"
  by (rule reach_invariant) (auto intro: mount_invs count_inv_step)

lemma tx_inv_step: "app_step s s' \<Longrightarrow> tx_inv s \<Longrightarrow> tx_inv s'"
  by (induction rule: app_step.induct)
     (auto simp: tx_inv_def op_simps split: step_splits)

lemma reach_tx_inv: "reach s \<Longrightarrow> tx_inv s"
  by (rule reach_invariant) (auto intro: mount_invs tx_inv_step)

lemma signer_inv_step: "app_step s s' \<Longrightarrow> signer_inv s \<Longrightarrow> signer_inv s'"
  by (induction rule: app_step.induct)
     (auto simp: signer_inv_def op_simps setupContract_def split: step_splits dest: in_diffD)

lemma signer_inv_mount: "signer_inv (mount eth c)"
  by (simp add: signer_inv_def mount_def initial_app_def op_simps)

lemma reach_signer_inv: "reach s \<Longrightarrow> signer_inv s"
  by (rule reach_invariant) (auto intro: signer_inv_mount signer_inv_step)

text \<open>Only the wallet's signature of a pending \<open>wave\<close> call adds to its record, with the
  account its binding designates.\<close>

lemma sent_step:
  "app_step s s' \<Longrightarrow> sent s' \<noteq> sent s \<Longrightarrow>
     \<exists>b m. Wave_send b m \<in># tasks s \<and> signer_index b < length (authorized s) \<and>
       sent s' = sent s @ [(authorized s ! signer_index b, m)]"
  by (induction rule: app_step.induct) (auto simp: op_simps split: step_splits)

text \<open>The pending events can all be delivered: the drain is a run of the component.\<close>

lemma drain_steps: "app_step\<^sup>*\<^sup>* s (drain s)"
proof (induction s rule: drain.induct)
  case (1 s)
  show ?case
  proof (cases "inbox s = []")
    case True
    then show ?thesis by (simp add: drain.simps [of s])
  next
    case False
    then have "app_step s (deliver_event s)" by (rule app_step.deliver)
    with False "1.IH" show ?thesis
      by (simp add: drain.simps [of s] converse_rtranclp_into_rtranclp)
  qed
qed

lemma reach_star: "app_step\<^sup>*\<^sup>* s s' \<Longrightarrow> reach s \<Longrightarrow> reach s'"
  by (induction rule: rtranclp_induct) (auto intro: reach.step)

section \<open>Properties of the running component\<close>

text \<open>
  C1. The busy flag is sound: in every reachable state where \<open>mining\<close> is set, a
  \<open>wave\<close> call is suspended on \<open>waveTxn.wait()\<close>, whose completion clears it.
\<close>

theorem busy_flag_pending: "reach s \<Longrightarrow> mining s \<Longrightarrow> Wave_wait \<in># tasks s"
  using reach_busy_inv by (auto simp: busy_inv_def)

text \<open>
  C2. The busy flag is never stuck: from every reachable state where \<open>mining\<close> is
  set, the confirmation (or failure) of the pending transaction is a step that clears it.
\<close>

theorem busy_flag_clears: "reach s \<Longrightarrow> mining s \<Longrightarrow> \<exists>s'. app_step s s' \<and> \<not> mining s'"
proof -
  assume "reach s" and "mining s"
  then have "Wave_wait \<in># tasks s" using reach_busy_inv by (auto simp: busy_inv_def)
  then have "app_step s (wave_wait_resume (Ok ()) (drop_task Wave_wait s))"
    by (rule app_step.wave_done)
  moreover have "\<not> mining (wave_wait_resume (Ok ()) (drop_task Wave_wait s))"
    by simp
  ultimately show ?thesis by blast
qed

text \<open>
  C3. Admission control: while \<open>mining\<close> is set (the button is disabled), no step
  starts a new \<open>wave\<close> call; the number of \<open>wave\<close> calls in flight can only
  fall.
\<close>

theorem submit_gate:
  "app_step s s' \<Longrightarrow> mining s \<Longrightarrow> in_flight wave_task (tasks s') \<le> in_flight wave_task (tasks s)"
proof (induction rule: app_step.induct)
  case (wave_setup b m s)
  from in_flight_member [OF wave_setup.hyps, of wave_task]
  have "1 \<le> in_flight wave_task (tasks s)" by simp
  with wave_setup.hyps show ?case by (cases b) (auto simp: op_simps)
next
  case (wave_sent b m s s1)
  from in_flight_member [OF wave_sent.hyps(1), of wave_task]
  have "1 \<le> in_flight wave_task (tasks s)" by simp
  with wave_sent.hyps show ?case by (auto simp: op_simps split: step_splits)
qed (auto simp: op_simps dest: in_flight_member[where P = wave_task]
          split: step_splits)

text \<open>
  C11. The \<open>NewWave\<close> listener is registered at most once: in every reachable state
  the listener effects in flight and the registered listener number at most one.
\<close>

theorem single_listener:
  "reach s \<Longrightarrow> in_flight listen_task (tasks s) + (if listening s then 1 else 0) \<le> 1"
  using reach_listen_inv by (simp add: listen_inv_def)

text \<open>
  C12. The listener is never unregistered: once registered it stays registered across
  every step, unmount included, because the effect's cleanup (lines 185--189) is the
  resolution value of a \<open>Promise\<close> and React never calls it.
\<close>

theorem listener_never_removed: "app_step s s' \<Longrightarrow> listening s \<Longrightarrow> listening s'"
  by (rule listening_step)

text \<open>
  C13. Without an injected wallet the component is inert: in every reachable state with
  no \<open>window.ethereum\<close> no call is in flight, no listener is registered, no account is
  set, the busy flag is clear and the log is empty.
\<close>

theorem no_wallet_inert:
  "reach s \<Longrightarrow> \<not> has_ethereum s \<Longrightarrow>
     tasks s = {#} \<and> \<not> listening s \<and> currentAccount s = [] \<and> \<not> mining s \<and> allWaves s = []"
  using reach_inert_inv by (auto simp: inert_inv_def)

text \<open>
  C15. The only alert the component ever shows is "Get metamask...", after a click on
  "Connect Wallet" with no wallet injected: the mount shows none (the check at mount never
  alerts, scenario A of the specification), and a step that adds an alert is that click.
\<close>

theorem alert_only_on_connect:
  "alerts (mount eth c) = [] \<and>
   (app_step s s' \<longrightarrow> alerts s' \<noteq> alerts s \<longrightarrow>
      \<not> has_ethereum s \<and> s' = connectWallet s \<and> alerts s' = alerts s @ [''Get metamask...''])"
proof -
  have "alerts (mount eth c) = []" by (simp add: mount_def initial_app_def op_simps)
  moreover have "app_step s s' \<Longrightarrow> alerts s' \<noteq> alerts s \<Longrightarrow>
      \<not> has_ethereum s \<and> s' = connectWallet s \<and> alerts s' = alerts s @ [''Get metamask...'']"
    by (induction rule: app_step.induct) (auto simp: op_simps split: step_splits)
  ultimately show ?thesis by blast
qed

text \<open>
  C17. Connecting is idempotent: once an account is set the "Connect Wallet" button is
  gone, so no step sends a new \<open>eth_requestAccounts\<close> prompt; the prompts in flight
  can only fall.
\<close>

theorem connect_no_reprompt:
  "app_step s s' \<Longrightarrow> currentAccount s \<noteq> [] \<Longrightarrow>
     count (tasks s') Connect_call \<le> count (tasks s) Connect_call"
  by (induction rule: app_step.induct)
     (auto simp: op_simps split: step_splits)


text \<open>
  C23. \<open>getWaveCount\<close> is dead code: in every reachable state the count is still 0 and
  its loading flag was never set.
\<close>

theorem count_never_fetched: "reach s \<Longrightarrow> \<not> fetchingWaveLength s \<and> waves s = 0"
  using reach_count_inv by (auto simp: count_inv_def)

text \<open>
  C25. Every transaction the wallet broadcasts from a reachable state comes from a pending
  \<open>wave\<close> call and is signed by the account the wallet has selected at that moment (the
  first exposed account, as \<open>provider.getSigner()\<close> of line 19 designates it), which need
  not be \<open>currentAccount\<close>.
\<close>

theorem signed_by_active:
  "reach s \<Longrightarrow> app_step s s' \<Longrightarrow> sent s' \<noteq> sent s \<Longrightarrow>
     \<exists>a accs b m. authorized s = a # accs \<and> Wave_send b m \<in># tasks s \<and> sent s' = sent s @ [(a, m)]"
proof -
  assume r: "reach s" and step: "app_step s s'" and new: "sent s' \<noteq> sent s"
  from sent_step [OF step new] obtain b m where w: "Wave_send b m \<in># tasks s"
    and len: "signer_index b < length (authorized s)"
    and sent: "sent s' = sent s @ [(authorized s ! signer_index b, m)]" by blast
  from reach_signer_inv [OF r] w have "signer_index b = 0" by (auto simp: signer_inv_def)
  with len sent w show ?thesis by (cases "authorized s") auto
qed

text \<open>
  C26. In every reachable state the transactions waited for number at most the
  transactions the wallet has broadcast: the busy flag is never set for a transaction that
  does not exist.
\<close>

theorem waits_have_tx: "reach s \<Longrightarrow> count (tasks s) Wave_wait \<le> length (sent s)"
  using reach_tx_inv by (simp add: tx_inv_def)



end
