(* ===== verification/Scenarios.thy ===== *)
theory Scenarios
  imports App
begin

text \<open>
  Concrete runs of the component from a mount with a wallet injected, built step by step
  with the rules of \<open>app_step\<close>. They are the inputs at which the properties of the
  development are applied.
\<close>

section \<open>Runs\<close>

abbreviation bound :: "binding option" where
  "bound \<equiv> setupContract True"

abbreviation hi_wave :: wave_struct where
  "hi_wave \<equiv> chain_wave ''0xABC'' ''hi'' 1690000000"

text \<open>
  Two clicks on "Wave at Me" before the first signature comes back, with the account
  \<open>0xABC\<close> exposed by the wallet.
\<close>

abbreviation approved :: sys where
  "approved \<equiv> set_authorized [''0xABC''] (mount True [])"

abbreviation click1 :: sys where
  "click1 \<equiv> wave approved"

abbreviation sending1 :: sys where
  "sending1 \<equiv> wave_setup_resume bound '''' (drop_task (Wave_setup bound '''') click1)"

abbreviation click2 :: sys where
  "click2 \<equiv> wave sending1"

abbreviation sending2 :: sys where
  "sending2 \<equiv> wave_setup_resume bound '''' (drop_task (Wave_setup bound '''') click2)"

abbreviation mining1 :: sys where
  "mining1 \<equiv> wave_send_resume (Ok ()) (drop_task (Wave_send (the bound) '''') (the (sign_and_send (the bound) '''' sending2)))"

abbreviation mining2 :: sys where
  "mining2 \<equiv> wave_send_resume (Ok ()) (drop_task (Wave_send (the bound) '''') (the (sign_and_send (the bound) '''' mining1)))"

abbreviation mined1 :: sys where
  "mined1 \<equiv> wave_wait_resume (Ok ()) (drop_task Wave_wait mining2)"

text \<open>
  The bulk fetch racing the listener. The listener is registered first; the node reads
  the contract while it is still empty; \<open>hi_wave\<close> is mined and its event delivered;
  only then does the stale answer arrive and replace the log.
\<close>

abbreviation listening1 :: sys where
  "listening1 \<equiv> listen_setup_resume bound (drop_task (Listen_setup bound) (mount True []))"

abbreviation fetching1 :: sys where
  "fetching1 \<equiv> getall_setup_resume bound (drop_task (GetAll_setup bound) listening1)"

abbreviation read_empty :: sys where
  "read_empty \<equiv> getall_read (drop_task GetAll_call fetching1)"

abbreviation appended :: sys where
  "appended \<equiv> deliver_event (mine hi_wave read_empty)"

abbreviation erased :: sys where
  "erased \<equiv> getall_reply_resume (Ok []) (drop_task (GetAll_reply (Ok [])) appended)"

text \<open>
  The other order: \<open>hi_wave\<close> is mined after the listener is registered and before the
  node reads the contract; the answer is applied before the event is delivered.
\<close>

abbreviation mined_early :: sys where
  "mined_early \<equiv> mine hi_wave listening1"

abbreviation read_full :: sys where
  "read_full \<equiv> getall_read (drop_task GetAll_call
     (getall_setup_resume bound (drop_task (GetAll_setup bound) mined_early)))"

abbreviation duplicated :: sys where
  "duplicated \<equiv> deliver_event
     (getall_reply_resume (Ok [hi_wave]) (drop_task (GetAll_reply (Ok [hi_wave])) read_full))"

text \<open>
  The good order: a contract holding \<open>hi_wave\<close> at mount, the listener registered, the
  contract read with no event pending, and the answer applied before any event.
\<close>

abbreviation synced_read :: sys where
  "synced_read \<equiv> getall_read (drop_task GetAll_call
     (getall_setup_resume bound (drop_task (GetAll_setup bound)
       (listen_setup_resume bound (drop_task (Listen_setup bound) (mount True [hi_wave]))))))"

abbreviation synced :: sys where
  "synced \<equiv> getall_reply_resume (Ok [hi_wave]) (drop_task (GetAll_reply (Ok [hi_wave])) synced_read)"

text \<open>
  An account switch after connecting: the page shows \<open>0xA\<close>, the wallet has moved to
  \<open>0xB\<close>, and a wave is sent.
\<close>

abbreviation connected_a :: sys where
  "connected_a \<equiv> check_resume (Ok (authorized (set_authorized [''0xA''] (mount True []))))
     (drop_task Check_call (set_authorized [''0xA''] (mount True [])))"

abbreviation switched_b :: sys where
  "switched_b \<equiv> set_authorized [''0xB''] connected_a"

abbreviation sending_b :: sys where
  "sending_b \<equiv> wave_setup_resume bound '''' (drop_task (Wave_setup bound '''') (wave switched_b))"

abbreviation sent_b :: sys where
  "sent_b \<equiv> wave_send_resume (Ok ()) (drop_task (Wave_send (the bound) '''') (the (sign_and_send (the bound) '''' sending_b)))"

section \<open>Lemmas\<close>

lemmas run_simps = mount_def initial_app_def setupContract_def op_simps wavesCleaned_def clean_loop_map

lemma reach_approved: "reach approved"
  by (rule reach.step [OF reach.mounted], rule app_step.wallet_switch) (simp add: run_simps)

lemma reach_click1: "reach click1"
  by (rule reach.step [OF reach_approved], rule app_step.click_wave)
     (simp_all add: run_simps)

lemma reach_sending1: "reach sending1"
  by (rule reach.step [OF reach_click1], rule app_step.wave_setup) (simp add: run_simps)

lemma reach_click2: "reach click2"
  by (rule reach.step [OF reach_sending1], rule app_step.click_wave)
     (simp_all add: run_simps)

lemma reach_sending2: "reach sending2"
  by (rule reach.step [OF reach_click2], rule app_step.wave_setup) (simp add: run_simps)

lemma reach_mining1: "reach mining1"
  by (rule reach.step [OF reach_sending2], rule app_step.wave_sent) (simp_all add: run_simps)

lemma reach_mining2: "reach mining2"
  by (rule reach.step [OF reach_mining1], rule app_step.wave_sent) (simp_all add: run_simps)

lemma reach_mined1: "reach mined1"
  by (rule reach.step [OF reach_mining2], rule app_step.wave_done) (simp add: run_simps)

lemma reach_listening1: "reach listening1"
  by (rule reach.step [OF reach.mounted], rule app_step.listen_setup) (simp add: run_simps)

lemma reach_fetching1: "reach fetching1"
  by (rule reach.step [OF reach_listening1], rule app_step.getall_setup) (simp add: run_simps)

lemma reach_read_empty: "reach read_empty"
  by (rule reach.step [OF reach_fetching1], rule app_step.getall_read_ok) (simp add: run_simps)

lemma reach_appended: "reach appended"
  by (rule reach.step [OF reach.step [OF reach_read_empty app_step.chain_mine]],
      rule app_step.deliver) (simp add: run_simps)

lemma reach_erased: "reach erased"
  by (rule reach.step [OF reach_appended], rule app_step.getall_done) (simp add: run_simps)

lemma reach_mined_early: "reach mined_early"
  by (rule reach.step [OF reach_listening1 app_step.chain_mine])

lemma reach_fetching_full:
  "reach (getall_setup_resume bound (drop_task (GetAll_setup bound) mined_early))"
  by (rule reach.step [OF reach_mined_early], rule app_step.getall_setup) (simp add: run_simps)

lemma reach_read_full: "reach read_full"
  by (rule reach.step [OF reach_fetching_full], rule app_step.getall_read_ok) (simp add: run_simps)

lemma reach_dup_applied:
  "reach (getall_reply_resume (Ok [hi_wave]) (drop_task (GetAll_reply (Ok [hi_wave])) read_full))"
  by (rule reach.step [OF reach_read_full], rule app_step.getall_done) (simp add: run_simps)

lemma reach_duplicated: "reach duplicated"
  by (rule reach.step [OF reach_dup_applied], rule app_step.deliver) (simp add: run_simps)

lemma reach_synced_listen:
  "reach (listen_setup_resume bound (drop_task (Listen_setup bound) (mount True [hi_wave])))"
  by (rule reach.step [OF reach.mounted], rule app_step.listen_setup) (simp add: run_simps)

lemma reach_synced_fetch:
  "reach (getall_setup_resume bound (drop_task (GetAll_setup bound)
     (listen_setup_resume bound (drop_task (Listen_setup bound) (mount True [hi_wave])))))"
  by (rule reach.step [OF reach_synced_listen], rule app_step.getall_setup) (simp add: run_simps)

lemma reach_synced_read: "reach synced_read"
  by (rule reach.step [OF reach_synced_fetch], rule app_step.getall_read_ok) (simp add: run_simps)

lemma reach_authorized_a: "reach (set_authorized [''0xA''] (mount True []))"
  by (rule reach.step [OF reach.mounted], rule app_step.wallet_switch) (simp add: run_simps)

lemma reach_connected_a: "reach connected_a"
  by (rule reach.step [OF reach_authorized_a], rule app_step.check_done) (simp add: run_simps)

lemma reach_switched_b: "reach switched_b"
  by (rule reach.step [OF reach_connected_a], rule app_step.wallet_switch) (simp add: run_simps)

lemma reach_clicked_b: "reach (wave switched_b)"
  by (rule reach.step [OF reach_switched_b], rule app_step.click_wave) (simp_all add: run_simps)

lemma reach_sending_b: "reach sending_b"
  by (rule reach.step [OF reach_clicked_b], rule app_step.wave_setup) (simp add: run_simps)

lemma reach_sent_b: "reach sent_b"
  by (rule reach.step [OF reach_sending_b], rule app_step.wave_sent) (simp_all add: run_simps)

end
