(* ===== verification/Liveness.thy ===== *)
theory Liveness
  imports App
begin

text \<open>
  What the running component can still do from a state: every suspended continuation can
  be settled (a schedule \<open>settle\<close> that resumes one continuation, and the measure
  \<open>pending_awaits\<close> that every resumption lowers), and a click on "Wave at Me" can be
  carried through the wallet, the contract and the event listener to the log.
\<close>

section \<open>Settling the continuations\<close>

text \<open>
  The awaits still ahead of a suspended continuation on its longest path: \<open>wave\<close> waits
  for the binding, the handle and the receipt, \<open>getAllWaves\<close> for the binding, the
  request and the answer, \<open>getWaveCount\<close> for the binding and the count. Every
  resumption lowers the total over the pending continuations.
\<close>

fun awaits_left :: "task \<Rightarrow> nat" where
  "awaits_left (Count_setup b) = 2"
| "awaits_left Count_call = 1"
| "awaits_left Check_call = 1"
| "awaits_left (Wave_setup b m) = 3"
| "awaits_left (Wave_send b m) = 2"
| "awaits_left Wave_wait = 1"
| "awaits_left Connect_call = 1"
| "awaits_left (GetAll_setup b) = 3"
| "awaits_left GetAll_call = 2"
| "awaits_left (GetAll_reply r) = 1"
| "awaits_left (Listen_setup b) = 1"

definition pending_awaits :: "sys \<Rightarrow> nat" where
  "pending_awaits s = sum_mset (image_mset awaits_left (tasks s))"

text \<open>
  A schedule that settles one continuation: the wallet or the node answers with a
  rejection wherever the code has a \<open>catch\<close>, and the bindings and the receipt are
  taken as they come.
\<close>

fun settle :: "task \<Rightarrow> sys \<Rightarrow> sys" where
  "settle (Count_setup b) s = count_setup_resume b (drop_task (Count_setup b) s)"
| "settle Count_call s = count_resume (Fail NetworkError) (drop_task Count_call s)"
| "settle Check_call s = check_resume (Fail NetworkError) (drop_task Check_call s)"
| "settle (Wave_setup b m) s = wave_setup_resume b m (drop_task (Wave_setup b m) s)"
| "settle (Wave_send b m) s = wave_send_resume (Fail UserRejected) (drop_task (Wave_send b m) s)"
| "settle Wave_wait s = wave_wait_resume (Fail Reverted) (drop_task Wave_wait s)"
| "settle Connect_call s = connect_resume (Fail UserRejected) (drop_task Connect_call s)"
| "settle (GetAll_setup b) s = getall_setup_resume b (drop_task (GetAll_setup b) s)"
| "settle GetAll_call s = add_task (GetAll_reply (Fail NetworkError)) (drop_task GetAll_call s)"
| "settle (GetAll_reply r) s = getall_reply_resume r (drop_task (GetAll_reply r) s)"
| "settle (Listen_setup b) s = listen_setup_resume b (drop_task (Listen_setup b) s)"

section \<open>Lemmas\<close>

lemma pending_awaits_drop:
  "t \<in># tasks s \<Longrightarrow> pending_awaits (drop_task t s) + awaits_left t = pending_awaits s"
proof -
  assume "t \<in># tasks s"
  then have "image_mset awaits_left (tasks s) =
      add_mset (awaits_left t) (image_mset awaits_left (tasks s - {#t#}))"
    by (metis image_mset_add_mset insert_DiffM)
  then show ?thesis by (simp add: pending_awaits_def drop_task_def)
qed

lemma settle_step: "t \<in># tasks s \<Longrightarrow> app_step s (settle t s)"
  by (cases t) (auto simp only: settle.simps intro: app_step.intros)

lemma settle_less: "t \<in># tasks s \<Longrightarrow> pending_awaits (settle t s) < pending_awaits s"
  using pending_awaits_drop [of t s]
  by (cases t) (auto simp: op_simps pending_awaits_def split: option.splits outcome.splits)

lemma settle_inbox: "inbox (settle t s) = inbox s"
  by (cases t) (simp_all add: op_simps split: option.splits outcome.splits)

text \<open>Every continuation can be settled: some run empties the multiset of tasks.\<close>

lemma settle_all: "\<exists>s'. app_step\<^sup>*\<^sup>* s s' \<and> tasks s' = {#} \<and> inbox s' = inbox s"
proof (induction "pending_awaits s" arbitrary: s rule: less_induct)
  case less
  show ?case
  proof (cases "tasks s = {#}")
    case True
    then show ?thesis by blast
  next
    case False
    then obtain t where t: "t \<in># tasks s" by blast
    obtain s' where "app_step\<^sup>*\<^sup>* (settle t s) s'" "tasks s' = {#}" "inbox s' = inbox s"
      using less [OF settle_less [OF t]] settle_inbox [of t s] by auto
    with settle_step [OF t] show ?thesis by (blast intro: converse_rtranclp_into_rtranclp)
  qed
qed

text \<open>One click on "Wave at Me" run to the end with the wallet's and the node's successful
  answers: only the wallet's record of broadcast transactions changes.\<close>

lemma wave_run:
  "mounted s \<Longrightarrow> \<not> mining s \<Longrightarrow> has_ethereum s \<Longrightarrow> authorized s = a # accs \<Longrightarrow>
     \<exists>s'. app_step\<^sup>*\<^sup>* s s' \<and> sent s' = sent s @ [(a, value_text s)] \<and> \<not> mining s' \<and>
       tasks s' = tasks s \<and> inbox s' = inbox s \<and> listening s' = listening s \<and>
       allWaves s' = allWaves s \<and> chain s' = chain s \<and>
       pool s' = add_mset (a, value_text s) (pool s)"
proof -
  assume m: "mounted s" and idle: "\<not> mining s" and e: "has_ethereum s"
    and acc: "authorized s = a # accs"
  let ?b = "setupContract True" and ?m = "value_text s"
  let ?s2 = "wave_setup_resume ?b ?m (drop_task (Wave_setup ?b ?m) (wave s))"
  let ?s3 = "?s2\<lparr>sent := sent ?s2 @ [(a, ?m)], pool := add_mset (a, ?m) (pool ?s2)\<rparr>"
  let ?s4 = "wave_send_resume (Ok ()) (drop_task (Wave_send (the ?b) ?m) ?s3)"
  let ?s5 = "wave_wait_resume (Ok ()) (drop_task Wave_wait ?s4)"
  have "app_step s (wave s)" using m idle by (rule app_step.click_wave)
  moreover have "app_step (wave s) ?s2"
    by (rule app_step.wave_setup) (simp add: e op_simps)
  moreover have "app_step ?s2 ?s4"
    by (rule app_step.wave_sent) (simp_all add: e acc op_simps setupContract_def)
  moreover have "app_step ?s4 ?s5"
    by (rule app_step.wave_done) (simp add: op_simps)
  ultimately have "app_step\<^sup>*\<^sup>* s ?s5" by (meson converse_rtranclp_into_rtranclp r_into_rtranclp)
  moreover have "sent ?s5 = sent s @ [(a, ?m)] \<and> \<not> mining ?s5 \<and> tasks ?s5 = tasks s \<and>
      inbox ?s5 = inbox s \<and> listening ?s5 = listening s \<and> allWaves ?s5 = allWaves s \<and>
      chain ?s5 = chain s \<and> pool ?s5 = add_mset (a, ?m) (pool s)"
    by (simp add: e acc op_simps setupContract_def)
  ultimately show ?thesis by blast
qed

section \<open>Properties\<close>

text \<open>
  C32. Liveness of the continuations: from every reachable state some run settles every
  suspended continuation and delivers every pending event, and the busy flag is then
  clear. No \<open>await\<close> of the component can leave it stuck.
\<close>

theorem settles:
  "reach s \<Longrightarrow> \<exists>s'. app_step\<^sup>*\<^sup>* s s' \<and> tasks s' = {#} \<and> inbox s' = [] \<and> \<not> mining s'"
proof -
  assume r: "reach s"
  obtain s1 where s1: "app_step\<^sup>*\<^sup>* s s1" "tasks s1 = {#}"
    using settle_all by blast
  have star: "app_step\<^sup>*\<^sup>* s (drain s1)"
    using s1(1) drain_steps [of s1] by (rule rtranclp_trans)
  with r have "busy_inv (drain s1)" by (blast intro: reach_star reach_busy_inv)
  with s1 star show ?thesis using drain_fields [of s1] by (auto simp: busy_inv_def)
qed


text \<open>
  C34. End to end: on a mounted, idle page whose listener is registered, with an authorised
  account, some run broadcasts the text box's wave, has that very transaction mined by the
  contract (sender the signing account, any block time, the pool back as it was), and
  shows it in the log as the record \<open>onNewWave\<close> builds from the \<open>NewWave\<close> event,
  with the busy flag clear.
\<close>

theorem wave_displayed:
  "mounted s \<Longrightarrow> \<not> mining s \<Longrightarrow> has_ethereum s \<Longrightarrow> listening s \<Longrightarrow> authorized s = a # accs \<Longrightarrow>
     \<exists>s'. app_step\<^sup>*\<^sup>* s s' \<and> sent s' = sent s @ [(a, value_text s)] \<and>
       chain s' = wave_mined (chain s) (chain_wave a (value_text s) ts) \<and> pool s' = pool s \<and>
       new_wave_entry a (value_text s) ts \<in> set (allWaves s') \<and> \<not> mining s'"
proof -
  assume h: "mounted s" "\<not> mining s" "has_ethereum s" and l: "listening s"
    and acc: "authorized s = a # accs"
  let ?w = "chain_wave a (value_text s) ts"
  obtain s1 where s1: "app_step\<^sup>*\<^sup>* s s1" "sent s1 = sent s @ [(a, value_text s)]"
    "\<not> mining s1" "listening s1" "chain s1 = chain s"
    "pool s1 = add_mset (a, value_text s) (pool s)"
    using wave_run [OF h acc] l by auto
  have "app_step s1 (mine_tx a (value_text s) ts s1)" by (rule app_step.tx_mined) (simp add: s1)
  with s1(1) have "app_step\<^sup>*\<^sup>* s (mine_tx a (value_text s) ts s1)"
    by (rule rtranclp.rtrancl_into_rtrancl)
  then have "app_step\<^sup>*\<^sup>* s (drain (mine_tx a (value_text s) ts s1))"
    using drain_steps by (rule rtranclp_trans)
  moreover have "clean_wave ?w = new_wave_entry a (value_text s) ts"
    using new_wave_entry_clean [of ?w] by (simp add: chain_wave_def)
  ultimately show ?thesis
    using s1 by (auto simp: drain_eq mine_tx_def mine_def)
qed

end
