(* ===== verification/Spec2Isabelle.thy ===== *)
theory Spec2Isabelle
  imports Scenarios Liveness
begin

text \<open>
  \<^bold>\<open>A verification development of \<^verbatim>\<open>src/src/App.jsx\<close>\<close>, the single React
  component of the wave portal: a page that connects an Ethereum wallet, sends "waves"
  (messages) to the WavePortal contract and shows a live log of every wave.

  \<^bold>\<open>The program and its parts.\<close> The component keeps six \<open>useState\<close> hooks
  (lines 7--12) and defines async functions that talk to the injected wallet
  (\<open>window.ethereum\<close>) and, through \<open>ethers\<close>, to the contract:
  \<^item> wallet session: \<open>checkIfWalletIsConnected\<close> (lines 40--72, run at mount) and
    \<open>connectWallet\<close> (lines 94--114, the "Connect Wallet" button);
  \<^item> contract client: \<open>setupContract\<close> (lines 16--24) builds a contract binding
    from the provider on every call, with the constant \<open>contractAddress\<close> (line 14);
  \<^item> transaction lifecycle: \<open>wave\<close> (lines 74--92, the "Wave at Me" button) sends
    \<open>wave(value, {gasLimit: 300000})\<close>, sets the busy flag \<open>mining\<close> and waits for
    the receipt; the button is disabled while \<open>mining\<close> (line 215);
  \<^item> wave log: \<open>getAllWaves\<close> (lines 116--151, run at mount) replaces the log
    \<open>allWaves\<close> with the contract's array, and the effect of lines 165--190 registers
    \<open>onNewWave\<close>, which appends each \<open>NewWave\<close> event;
  \<^item> \<open>getWaveCount\<close> (lines 26--38), which nothing calls.
  The two effects (lines 157--160 and 165--190) start these functions at mount without
  awaiting them, so their continuations interleave with each other, with the user, with
  waves mined by anyone and with the events the contract emits.

  \<^bold>\<open>The theories.\<close>
  \<^item> \<open>Prelude\<close>: the string types, the rule collection \<open>op_simps\<close> (the effect of
    every handler and continuation), and the count \<open>in_flight\<close>
    of the continuations of one kind with its multiset lemmas.
  \<^item> \<open>Contract\<close>: \<open>contractAddress\<close>, \<open>binding\<close>, \<open>setupContract\<close>
    (\<open>None\<close> where the source's \<open>catch\<close> returns \<open>undefined\<close>), \<open>gasLimit\<close>;
    the results of remote calls (\<open>outcome\<close>, a resolved value or a rejection); and,
    modelled from the specification because the Solidity source is not in the
    repository, the contract's \<open>Wave\<close> struct and array (\<open>wave_struct\<close>,
    \<open>chain_wave\<close>, \<open>wave_mined\<close> for \<open>wave(message)\<close> pushing \<open>Wave(msg.sender,
    message, block.timestamp)\<close>, \<open>contract_getAllWaves\<close>, \<open>contract_getTotalWaves\<close>).
  \<^item> \<open>WaveLog\<close>: JavaScript dates with TimeClip (\<open>js_date\<close>, \<open>time_clip\<close>,
    \<open>date_of_seconds\<close> for \<open>new Date(ts * 1000)\<close>), the log record
    \<open>wave_entry\<close>, the conversion \<open>clean_wave\<close>, the \<open>forEach\<close>/\<open>push\<close> loop
    \<open>clean_loop\<close>/\<open>wavesCleaned\<close>, and \<open>onNewWave\<close>.
  \<^item> \<open>State\<close>: the hooks as the record \<open>app_state\<close>; the running system \<open>sys\<close>
    extends it with the wallet's presence, \<open>mounted\<close>, \<open>listening\<close> (the
    listener is registered), \<open>tasks\<close> (a multiset of suspended continuations), the
    alerts shown, the contract's array \<open>chain\<close>, the events \<open>inbox\<close> emitted for
    the listener and not yet delivered, the accounts the wallet has authorised for the
    page (\<open>authorized\<close>, the first one signs) and the transactions it has signed and
    broadcast (\<open>sent\<close>), and the node's pool of those transactions not yet mined
    (\<open>pool\<close>, a multiset). The datatype \<open>task\<close> has one constructor per
    \<open>await\<close> of the source.
  \<^item> \<open>Provider\<close>: the wallet as the specification describes it (section 6; the
    extension's code is not in the repository): \<open>set_authorized\<close> for an approval, a
    switch or a revocation of accounts, and \<open>sign_and_send\<close> for a contract call
    with the account of the binding's signer index (\<open>provider.getSigner()\<close>, index 0,
    line 19), which fails when the wallet exposes no account of that index and otherwise
    records the transaction and puts it in the pool.
  \<^item> \<open>Wallet\<close>, \<open>Transaction\<close>, \<open>WaveCount\<close>, \<open>LogSync\<close>: each async
    function as its synchronous first part (a function \<open>sys \<Rightarrow> sys\<close> that returns
    or suspends by adding a task) and one function per \<open>await\<close> that resumes it with
    the answer (\<open>check_resume\<close>, \<open>wave_send_resume\<close>, \<open>getall_reply_resume\<close>,
    \<dots>). \<open>LogSync\<close> also holds the listener effect, its intended cleanup, React's
    unmount (\<open>unmount\<close> runs an effect's return value only if it is a function), the
    mining of a wave by anyone (\<open>mine\<close>) and of a transaction of the page's pool
    (\<open>mine_tx\<close>: the contract's \<open>wave\<close> with the signer as sender), the delivery of an event (\<open>deliver_event\<close>) and
    \<open>drain\<close>, the browser's dispatch of every pending event to \<open>onNewWave\<close> (no
    code of the repository: the event loop), a recursion proved to terminate.
  \<^item> \<open>App\<close>: \<open>mount\<close> (both effects), \<open>handleValue\<close>, the step relation \<open>app_step\<close> (user input
    under the render's guards, any continuation resuming with any answer, a transaction of
    the pool or anyone's wave mined, an event delivered, unmount, the user switching
    accounts in the wallet), the reachable states \<open>reach\<close>, the invariants and the
    safety properties of the running component.
  \<^item> \<open>Liveness\<close>: what the component can still do: a schedule \<open>settle\<close> resuming
    one continuation, the measure \<open>pending_awaits\<close> (the awaits still ahead) that every
    resumption lowers, and runs carrying a click through wallet, contract and listener.
  \<^item> \<open>Scenarios\<close>: concrete runs built rule by rule (two clicks before the first
    signature, the bulk fetch racing an event, a well-ordered fetch, a wave sent after an
    account switch).
  \<^item> This theory: the abstract specification of the log (\<open>mirrors\<close>: the log, followed
    by the events in flight, is the contract's array converted), its refinement lemmas,
    the interleavings where the code breaks it, and the witnesses.

  \<^bold>\<open>What is proved.\<close> The busy flag is sound and never stuck (C1, C2), and while it is
  set no submission starts (C3), but two clicks before the wallet returns the first
  handle put two transactions in flight and the flag then disagrees with them (C4, C5).
  Once the log mirrors the contract it does so forever (C6), and a well-ordered fetch
  establishes that (C7); the code's concurrent fetch and subscription can instead remove
  from the log a wave the listener had appended (C8), show one wave of the contract twice
  (C9), and a wave missing from the log stays missing (C10). The listener is registered
  at most once (C11) and never unregistered, unmount included (C12). Without a wallet the
  component is inert (C13), \<open>connectWallet\<close> alerts (C14), and that alert, after
  that click, is the only one ever shown, the mount included (C15). The wallet answers
  (C16, C17), the fetch and the append (C18, C19) and the date conversion (C20) are fixed
  on every branch; nothing validates the message or the connection before a send (C21);
  one \<open>wave\<close> run is the Idle, Pending, Idle machine (C22); \<open>getWaveCount\<close> is never
  called and completes on both branches (C23, C24). Every transaction the wallet
  broadcasts from a reachable state is signed by its selected account for a pending
  \<open>wave\<close> call (C25, through the invariant that every binding in flight has signer
  index 0), and every wait for a receipt has a broadcast transaction behind it (C26).
  Delivering the pending events terminates and appends exactly their conversions (C27).
  The log only ever shows waves of the contract (C28), so with the contract's timestamps
  in range no "Invalid Date" is shown (C29); from a mirrored state, whatever runs next,
  delivering the pending events makes the log exactly the converted array (C30, the
  refinement of \<open>mirrors\<close> into the contract's \<open>getAllWaves\<close>). After an account
  switch the wallet signs a wave with the newly selected account at a step where the
  page shows the old one (C31). From every reachable state some run settles every
  continuation and every event with the busy flag clear (C32, liveness, by well-founded
  induction on the awaits still ahead); a click on "Wave at Me" with an authorised account
  and successful answers broadcasts exactly that wave and returns to idle (C33); with the
  listener registered, that very transaction mined from the pool then shows in the log
  (C34). Delivering a sequence of events builds exactly the records the bulk conversion
  builds from the same waves (C35, the equivalence of the two paths into the log).

  \<^bold>\<open>Choices and bounds.\<close> Every loop of the source is structural (\<open>forEach\<close> over a
  finite array), so there is no fuel; \<open>drain\<close> is a \<open>function\<close> whose termination is
  proved with the measure \<open>length (inbox s)\<close>, which each delivery lowers by one. Timestamps and millisecond values are \<open>int\<close>:
  every value within TimeClip's range \<open>\<bar>v\<bar> \<le> 8.64 * 10^15\<close> is below \<open>2^53\<close> and exact
  in a double, and the model makes every date outside it invalid, as JavaScript does. The
  wave count is \<open>nat\<close>, and \<open>getTotalWaves()\<close> answers with the length of the contract's
  array. The wallet and the node are modelled by their answers, which are
  arbitrary (a theorem about every run holds whatever they answer), and by the state the
  component's behaviour depends on: the authorised accounts, the signed transactions and
  the pool, the contract's array and the emitted events.

  \<^bold>\<open>Not modelled.\<close> The JSX markup and styles (only the guards of lines 215 and 221 and
  the text area's \<open>onChange\<close> matter to the state), \<open>console.log\<close> calls (no
  state), the ABI file \<open>WavePortal.json\<close> (not in \<^verbatim>\<open>src\<close>), the wallet's
  networks and its prompt dialogs (only their answers matter), gas and fees (the fixed
  \<open>gasLimit\<close> is recorded, its consumption is not), React's dropping of state updates
  after unmount (the state after unmount is not observable; \<open>unmount\<close> follows React 17
  and later, which skip an effect's return value that is not a function, where React 16
  would throw "destroy is not a function"), the identity of the
  transaction a receipt answers (\<open>waveTxn.wait()\<close> may resolve or reject in any order
  with the mining of the pool; the model keeps no link between the two), and the rounding
  of \<open>Number(count)\<close> for a \<open>uint256\<close> count above \<open>2^53\<close> (the count is read as an
  exact \<open>nat\<close>; no code calls \<open>getWaveCount\<close>).
  \<^bold>\<open>Plan.\<close> Modelled first, because the specification calls it the core: the
  transaction lifecycle and the log's synchronisation with the contract, then the wallet
  session, then the single operations, then the wallet's and the node's state (accounts,
  signing, the pool). What is left is not code of the repository: a corrected
  synchronisation (merging the bulk answer with the events received since the read, the
  specification's deduplication policy) refined against \<open>mirrors\<close>.
\<close>

section \<open>The log as a mirror of the contract\<close>

text \<open>
  The abstract specification of the wave log: the contract's array of waves, converted
  record by record. The component keeps that promise in a state when the log followed by
  the events still on their way to the listener is exactly the converted array, no bulk
  fetch is in flight (none can start again after mount), and the listener is registered.
\<close>

definition mirrors :: "sys \<Rightarrow> bool" where
  "mirrors s \<longleftrightarrow> in_flight seed_task (tasks s) = 0 \<and> listening s \<and>
     allWaves s @ map clean_wave (inbox s) = map clean_wave (chain s)"

text \<open>
  Where the records come from: every displayed record, every pending event and every
  bulk answer in flight is a wave of the contract. The component never makes up a record
  of its own (section 4.3 of the specification: a submitted wave is learnt from the chain,
  not synthesised locally).
\<close>

definition origin_inv :: "sys \<Rightarrow> bool" where
  "origin_inv s \<longleftrightarrow> set (allWaves s) \<subseteq> clean_wave ` set (chain s) \<and> set (inbox s) \<subseteq> set (chain s) \<and>
     (\<forall>ws. GetAll_reply (Ok ws) \<in># tasks s \<longrightarrow> set ws \<subseteq> set (chain s))"

section \<open>Lemmas\<close>

lemma log_chain_step:
  "app_step s s' \<Longrightarrow> in_flight seed_task (tasks s) = 0 \<Longrightarrow> listening s \<Longrightarrow>
     allWaves s @ map clean_wave (inbox s) = map clean_wave (chain s) \<Longrightarrow>
     allWaves s' @ map clean_wave (inbox s') = map clean_wave (chain s')"
  by (induction rule: app_step.induct)
     (auto simp: op_simps onNewWave_def new_wave_entry_clean
           dest: in_flight_member[where P = seed_task]
           split: step_splits)

lemma mirrors_step: "app_step s s' \<Longrightarrow> mirrors s \<Longrightarrow> mirrors s'"
  unfolding mirrors_def using seed_done_step listening_step log_chain_step by blast

text \<open>Without a bulk fetch in flight, no step shortens the gap between chain and log.\<close>

lemma deficit_step:
  "app_step s s' \<Longrightarrow> in_flight seed_task (tasks s) = 0 \<Longrightarrow>
     length (allWaves s') + length (inbox s') + length (chain s) \<le>
     length (allWaves s) + length (inbox s) + length (chain s')"
  by (induction rule: app_step.induct)
     (auto simp: op_simps onNewWave_def dest: in_flight_member[where P = seed_task]
           split: step_splits)

lemma mirrors_star: "app_step\<^sup>*\<^sup>* s s' \<Longrightarrow> mirrors s \<Longrightarrow> mirrors s'"
  by (induction rule: rtranclp_induct) (auto intro: mirrors_step)

lemma origin_inv_step: "app_step s s' \<Longrightarrow> origin_inv s \<Longrightarrow> origin_inv s'"
  apply (induction rule: app_step.induct)
  apply (simp_all add: origin_inv_def op_simps onNewWave_def new_wave_entry_clean
        split: step_splits)
  apply (auto simp: wavesCleaned_def clean_loop_map dest: in_diffD)
   apply blast+
  done

lemma origin_inv_mount: "origin_inv (mount eth c)"
  by (simp add: origin_inv_def run_simps)

lemma reach_origin_inv: "reach s \<Longrightarrow> origin_inv s"
  by (rule reach_invariant) (auto intro: origin_inv_mount origin_inv_step)

section \<open>Properties\<close>

text \<open>
  C6. Refinement of the abstract log: once the log mirrors the contract, it mirrors it in
  every later state, whatever the interleaving of waves mined, events delivered, calls
  answered and user input.
\<close>

theorem mirror_kept: "app_step\<^sup>*\<^sup>* s s' \<Longrightarrow> mirrors s \<Longrightarrow> mirrors s'"
  by (rule mirrors_star)

text \<open>
  C7. The bulk fetch establishes the mirror when it is applied in the right order: the
  listener is registered, this is the only bulk fetch in flight, and the array it read,
  followed by the events queued since, is the contract's array.
\<close>

theorem seed_mirrors:
  "listening s \<Longrightarrow> in_flight seed_task (tasks s) = 1 \<Longrightarrow> GetAll_reply (Ok ws) \<in># tasks s \<Longrightarrow>
     ws @ inbox s = chain s \<Longrightarrow>
     mirrors (getall_reply_resume (Ok ws) (drop_task (GetAll_reply (Ok ws)) s))"
proof -
  assume "listening s" "in_flight seed_task (tasks s) = 1" "GetAll_reply (Ok ws) \<in># tasks s"
    and eq: "ws @ inbox s = chain s"
  from eq have "map clean_wave (chain s) = map clean_wave ws @ map clean_wave (inbox s)"
    by (metis map_append)
  with \<open>listening s\<close> \<open>in_flight seed_task (tasks s) = 1\<close> \<open>GetAll_reply (Ok ws) \<in># tasks s\<close>
  show ?thesis
    by (simp add: mirrors_def op_simps wavesCleaned_def clean_loop_map)
qed

text \<open>
  C8. The bulk fetch can erase a live event (against the ordering rule of the
  specification, section 5(a)): a reachable step that removes from the log the record of
  a wave the contract holds, which the listener had appended, and after which the listener
  is registered, no fetch is in flight and no event is pending, so nothing restores it.
\<close>

theorem seed_erases_event:
  "\<exists>s s' w. reach s \<and> app_step s s' \<and> clean_wave w \<in> set (allWaves s) \<and>
     w \<in> set (chain s') \<and> clean_wave w \<notin> set (allWaves s') \<and>
     listening s' \<and> in_flight seed_task (tasks s') = 0 \<and> inbox s' = []"
proof -
  have step: "app_step appended erased" by (rule app_step.getall_done) (simp add: run_simps)
  have "clean_wave hi_wave \<in> set (allWaves appended) \<and> hi_wave \<in> set (chain erased) \<and>
      clean_wave hi_wave \<notin> set (allWaves erased) \<and> listening erased \<and>
      in_flight seed_task (tasks erased) = 0 \<and> inbox erased = []"
    by (simp add: run_simps onNewWave_def new_wave_entry_clean)
  with reach_appended step show ?thesis by blast
qed

text \<open>
  C9. The bulk fetch and the listener can deliver the same wave twice (against the data
  model of the specification, section 3): a reachable state whose log shows a record twice
  although exactly one wave of the contract converts to it.
\<close>

theorem seed_duplicates_event:
  "\<exists>s w. reach s \<and> length (filter (\<lambda>v. clean_wave v = clean_wave w) (chain s)) = 1 \<and>
     count (mset (allWaves s)) (clean_wave w) = 2"
proof -
  have "length (filter (\<lambda>v. clean_wave v = clean_wave hi_wave) (chain duplicated)) = 1 \<and>
      count (mset (allWaves duplicated)) (clean_wave hi_wave) = 2"
    by (simp add: run_simps onNewWave_def new_wave_entry_clean)
  with reach_duplicated show ?thesis by blast
qed

text \<open>
  C10. A wave missing from the log is missing for good: once no bulk fetch is in flight,
  if the log and the pending events are shorter than the contract's array, they stay
  shorter in every later state.
\<close>

theorem loss_permanent:
  "app_step\<^sup>*\<^sup>* s s' \<Longrightarrow> in_flight seed_task (tasks s) = 0 \<Longrightarrow>
     length (allWaves s) + length (inbox s) < length (chain s) \<Longrightarrow>
     length (allWaves s') + length (inbox s') < length (chain s')"
proof (induction rule: rtranclp_induct)
  case base
  then show ?case by simp
next
  case (step t t')
  have "in_flight seed_task (tasks t) = 0"
    using step.hyps(1) step.prems(1)
    by (induction rule: rtranclp_induct) (auto intro: seed_done_step)
  with step.hyps(2) have "length (allWaves t') + length (inbox t') + length (chain t) \<le>
      length (allWaves t) + length (inbox t) + length (chain t')"
    by (rule deficit_step)
  with step.IH step.prems show ?case by simp
qed

text \<open>
  C4. Admission control has a gap: the flag is set only once the wallet has returned the
  transaction handle, so two clicks before that put two transactions in flight at once
  (the specification's single pending transaction and \<open>AlreadyPendingError\<close> are not
  implemented).
\<close>

theorem double_submission: "\<exists>s. reach s \<and> count (tasks s) Wave_wait = 2"
proof -
  have "count (tasks mining2) Wave_wait = 2" by (simp add: run_simps)
  with reach_mining2 show ?thesis by blast
qed

text \<open>
  C5. With two transactions in flight, the first to be mined clears the busy flag while
  the other is still pending: the flag and the pending transactions disagree.
\<close>

theorem pending_not_busy: "\<exists>s. reach s \<and> Wave_wait \<in># tasks s \<and> \<not> mining s"
proof -
  have "Wave_wait \<in># tasks mined1 \<and> \<not> mining mined1" by (simp add: run_simps)
  with reach_mined1 show ?thesis by blast
qed

text \<open>
  C21. \<open>wave\<close> validates nothing locally: with no account connected and an empty text
  area, the empty message goes to the wallet for signing (no \<open>NotConnectedError\<close>; the
  contract decides whether to accept it).
\<close>

theorem wave_unvalidated: "\<exists>s b. reach s \<and> currentAccount s = [] \<and> Wave_send b [] \<in># tasks s"
proof -
  have "currentAccount sending1 = [] \<and> Wave_send (the bound) [] \<in># tasks sending1"
    by (simp add: run_simps)
  with reach_sending1 show ?thesis by blast
qed

text \<open>
  C28. Well-formedness of the log: in every reachable state each displayed record is the
  conversion of a wave held by the contract.
\<close>

theorem log_from_chain: "reach s \<Longrightarrow> set (allWaves s) \<subseteq> clean_wave ` set (chain s)"
  using reach_origin_inv by (simp add: origin_inv_def)

text \<open>
  C29. No "Invalid Date" is ever displayed while the contract's timestamps stay within
  \<open>8.64 * 10^12\<close> seconds of the epoch: every record of the log then carries a valid date.
\<close>

theorem dates_valid:
  "reach s \<Longrightarrow> (\<forall>w\<in>set (chain s). \<bar>wave_timestamp w\<bar> \<le> 8640000000000) \<Longrightarrow>
     e \<in> set (allWaves s) \<Longrightarrow> \<exists>ms. timestamp e = Date ms"
proof -
  assume "reach s" and bound: "\<forall>w\<in>set (chain s). \<bar>wave_timestamp w\<bar> \<le> 8640000000000"
    and "e \<in> set (allWaves s)"
  then obtain w where "w \<in> set (chain s)" and e: "e = clean_wave w"
    using reach_origin_inv [OF \<open>reach s\<close>] by (auto simp: origin_inv_def)
  with bound have "\<bar>wave_timestamp w * 1000\<bar> \<le> max_time_value"
    by (auto simp: abs_mult max_time_value_def)
  with e show ?thesis by (simp add: clean_wave_def date_of_seconds_def time_clip_def)
qed

text \<open>
  C30. The abstract specification is met once the events are delivered: from a mirrored
  state, after any run of the component, delivering the pending events leaves the log
  exactly the contract's array, converted record by record.
\<close>

theorem drain_mirror:
  "mirrors s \<Longrightarrow> app_step\<^sup>*\<^sup>* s s' \<Longrightarrow>
     allWaves (drain s') = wavesCleaned (contract_getAllWaves (chain s'))"
proof -
  assume "mirrors s" and "app_step\<^sup>*\<^sup>* s s'"
  then have "mirrors s'" by (simp add: mirrors_star)
  then show ?thesis
    using drain_fields [of s'] by (simp add: mirrors_def run_simps)
qed

text \<open>
  C31. Transactions are silently redirected after an account switch (against section 5(c)
  of the specification, where an operation bound to a stale account fails at call time):
  a reachable step at which the wallet signs and broadcasts a wave from an account other
  than the connected account the page shows, and keeps showing.
\<close>

theorem stale_redirect:
  "\<exists>s s' a m. reach s \<and> app_step s s' \<and> sent s' = sent s @ [(a, m)] \<and>
     currentAccount s \<noteq> [] \<and> a \<noteq> currentAccount s \<and> currentAccount s' = currentAccount s"
proof -
  have step: "app_step sending_b sent_b" by (rule app_step.wave_sent) (simp_all add: run_simps)
  have "sent sent_b = sent sending_b @ [(''0xB'', '''')] \<and> currentAccount sending_b = ''0xA'' \<and>
      currentAccount sent_b = ''0xA''"
    by (simp add: run_simps)
  with reach_sending_b step show ?thesis by fastforce
qed

section \<open>Witnesses\<close>

theorem busy_flag_pending_witness:
  "reach mining1 \<and> mining mining1 \<and> Wave_wait \<in># tasks mining1"
proof -
  have "mining mining1" by (simp add: run_simps)
  with reach_mining1 busy_flag_pending [OF reach_mining1] show ?thesis by blast
qed

theorem busy_flag_clears_witness:
  "reach mining1 \<and> mining mining1 \<and> (\<exists>s'. app_step mining1 s' \<and> \<not> mining s')"
proof -
  have "mining mining1" by (simp add: run_simps)
  with reach_mining1 busy_flag_clears [OF reach_mining1] show ?thesis by blast
qed

theorem submit_gate_witness:
  "app_step mining1 mining2 \<and> mining mining1 \<and>
   in_flight wave_task (tasks mining2) \<le> in_flight wave_task (tasks mining1)"
proof -
  have step: "app_step mining1 mining2" by (rule app_step.wave_sent) (simp_all add: run_simps)
  have "mining mining1" by (simp add: run_simps)
  with step submit_gate [OF step] show ?thesis by blast
qed

theorem mirror_kept_witness:
  "app_step\<^sup>*\<^sup>* synced (mine hi_wave synced) \<and> mirrors synced \<and> mirrors (mine hi_wave synced)"
proof -
  have star: "app_step\<^sup>*\<^sup>* synced (mine hi_wave synced)"
    by (rule r_into_rtranclp, rule app_step.chain_mine)
  have "mirrors synced" by (simp add: mirrors_def run_simps)
  with star mirror_kept [OF star] show ?thesis by blast
qed

theorem seed_mirrors_witness:
  "listening synced_read \<and> in_flight seed_task (tasks synced_read) = 1 \<and>
   GetAll_reply (Ok [hi_wave]) \<in># tasks synced_read \<and> [hi_wave] @ inbox synced_read = chain synced_read \<and>
   mirrors synced"
proof -
  have h: "listening synced_read" "in_flight seed_task (tasks synced_read) = 1"
    "GetAll_reply (Ok [hi_wave]) \<in># tasks synced_read" "[hi_wave] @ inbox synced_read = chain synced_read"
    by (simp_all add: run_simps)
  from seed_mirrors [OF h] h show ?thesis by blast
qed

theorem loss_permanent_witness:
  "app_step\<^sup>*\<^sup>* erased (mine hi_wave erased) \<and> in_flight seed_task (tasks erased) = 0 \<and>
   length (allWaves erased) + length (inbox erased) < length (chain erased) \<and>
   length (allWaves (mine hi_wave erased)) + length (inbox (mine hi_wave erased)) <
     length (chain (mine hi_wave erased))"
proof -
  have star: "app_step\<^sup>*\<^sup>* erased (mine hi_wave erased)"
    by (rule r_into_rtranclp, rule app_step.chain_mine)
  have h: "in_flight seed_task (tasks erased) = 0"
    "length (allWaves erased) + length (inbox erased) < length (chain erased)"
    by (simp_all add: run_simps)
  from star h loss_permanent [OF star h] show ?thesis by blast
qed

theorem single_listener_witness:
  "reach listening1 \<and> in_flight listen_task (tasks listening1) + (if listening listening1 then 1 else 0) \<le> 1"
  using reach_listening1 single_listener [OF reach_listening1] by blast

theorem listener_never_removed_witness:
  "app_step listening1 (unmount listening1) \<and> listening listening1 \<and> listening (unmount listening1)"
proof -
  have step: "app_step listening1 (unmount listening1)"
    by (rule app_step.unmount) (simp add: run_simps)
  have "listening listening1" by (simp add: run_simps)
  with step listener_never_removed [OF step] show ?thesis by blast
qed

theorem no_wallet_inert_witness:
  "reach (mount False []) \<and> \<not> has_ethereum (mount False []) \<and> tasks (mount False []) = {#} \<and>
   \<not> listening (mount False []) \<and> currentAccount (mount False []) = [] \<and>
   \<not> mining (mount False []) \<and> allWaves (mount False []) = []"
proof -
  have "\<not> has_ethereum (mount False [])" by (simp add: run_simps)
  with no_wallet_inert [OF reach.mounted] reach.mounted show ?thesis by blast
qed

theorem alert_only_on_connect_witness:
  "alerts (mount True []) = [] \<and>
   app_step (mount False []) (connectWallet (mount False [])) \<and>
   alerts (connectWallet (mount False [])) \<noteq> alerts (mount False []) \<and>
   \<not> has_ethereum (mount False []) \<and>
   alerts (connectWallet (mount False [])) = alerts (mount False []) @ [''Get metamask...'']"
proof -
  have step: "app_step (mount False []) (connectWallet (mount False []))"
    by (rule app_step.click_connect) (simp_all add: run_simps)
  have "alerts (connectWallet (mount False [])) \<noteq> alerts (mount False [])"
    by (simp add: run_simps)
  with step alert_only_on_connect [of True "[]" "mount False []" "connectWallet (mount False [])"]
  show ?thesis by blast
qed

theorem connect_no_reprompt_witness:
  "app_step (check_resume (Ok [''0xABC'']) (drop_task Check_call (mount True [])))
     (handleValue ''hi'' (check_resume (Ok [''0xABC'']) (drop_task Check_call (mount True [])))) \<and>
   currentAccount (check_resume (Ok [''0xABC'']) (drop_task Check_call (mount True []))) \<noteq> [] \<and>
   count (tasks (handleValue ''hi'' (check_resume (Ok [''0xABC'']) (drop_task Check_call (mount True []))))) Connect_call
     \<le> count (tasks (check_resume (Ok [''0xABC'']) (drop_task Check_call (mount True [])))) Connect_call"
proof -
  have step: "app_step (check_resume (Ok [''0xABC'']) (drop_task Check_call (mount True [])))
     (handleValue ''hi'' (check_resume (Ok [''0xABC'']) (drop_task Check_call (mount True []))))"
    by (rule app_step.type_text) (simp add: run_simps)
  have "currentAccount (check_resume (Ok [''0xABC'']) (drop_task Check_call (mount True []))) \<noteq> []"
    by (simp add: run_simps)
  with step connect_no_reprompt [OF step] show ?thesis by blast
qed

theorem count_never_fetched_witness:
  "reach (mount True []) \<and> \<not> fetchingWaveLength (mount True []) \<and> waves (mount True []) = 0"
  using count_never_fetched [OF reach.mounted] reach.mounted by blast

theorem signed_by_active_witness:
  "reach sending2 \<and> app_step sending2 mining1 \<and> sent mining1 \<noteq> sent sending2 \<and>
   (\<exists>a accs b m. authorized sending2 = a # accs \<and> Wave_send b m \<in># tasks sending2 \<and>
      sent mining1 = sent sending2 @ [(a, m)])"
proof -
  have step: "app_step sending2 mining1" by (rule app_step.wave_sent) (simp_all add: run_simps)
  have "sent mining1 \<noteq> sent sending2" by (simp add: run_simps)
  with reach_sending2 step signed_by_active [OF reach_sending2 step] show ?thesis by blast
qed

theorem waits_have_tx_witness:
  "reach mining2 \<and> count (tasks mining2) Wave_wait \<le> length (sent mining2)"
  using reach_mining2 waits_have_tx [OF reach_mining2] by blast

theorem log_from_chain_witness:
  "reach synced \<and> set (allWaves synced) \<subseteq> clean_wave ` set (chain synced)"
proof -
  have "reach synced"
    by (rule reach.step [OF reach_synced_read], rule app_step.getall_done) (simp add: run_simps)
  with log_from_chain show ?thesis by blast
qed

theorem dates_valid_witness:
  "reach synced \<and> chain synced = [hi_wave] \<and> \<bar>wave_timestamp hi_wave\<bar> \<le> 8640000000000 \<and>
   clean_wave hi_wave \<in> set (allWaves synced) \<and> (\<exists>ms. timestamp (clean_wave hi_wave) = Date ms)"
proof -
  have r: "reach synced"
    by (rule reach.step [OF reach_synced_read], rule app_step.getall_done) (simp add: run_simps)
  have b: "\<forall>w\<in>set (chain synced). \<bar>wave_timestamp w\<bar> \<le> 8640000000000"
    and e: "clean_wave hi_wave \<in> set (allWaves synced)"
    by (simp_all add: run_simps chain_wave_def)
  have c: "chain synced = [hi_wave] \<and> \<bar>wave_timestamp hi_wave\<bar> \<le> 8640000000000"
    by (simp add: run_simps chain_wave_def)
  from r c e dates_valid [OF r b e] show ?thesis by blast
qed

theorem drain_mirror_witness:
  "mirrors synced \<and> app_step\<^sup>*\<^sup>* synced (mine hi_wave synced) \<and>
   allWaves (drain (mine hi_wave synced)) =
     wavesCleaned (contract_getAllWaves (chain (mine hi_wave synced)))"
proof -
  have m: "mirrors synced" by (simp add: mirrors_def run_simps)
  have star: "app_step\<^sup>*\<^sup>* synced (mine hi_wave synced)"
    by (rule r_into_rtranclp, rule app_step.chain_mine)
  from m star drain_mirror [OF m star] show ?thesis by blast
qed

theorem settles_witness:
  "reach mining1 \<and> (\<exists>s'. app_step\<^sup>*\<^sup>* mining1 s' \<and> tasks s' = {#} \<and> inbox s' = [] \<and> \<not> mining s')"
  using reach_mining1 settles [OF reach_mining1] by blast


theorem wave_displayed_witness:
  "mounted (set_authorized [''0xABC''] synced) \<and> \<not> mining (set_authorized [''0xABC''] synced) \<and>
   has_ethereum (set_authorized [''0xABC''] synced) \<and> listening (set_authorized [''0xABC''] synced) \<and>
   (\<exists>s'. app_step\<^sup>*\<^sup>* (set_authorized [''0xABC''] synced) s' \<and>
      sent s' = [(''0xABC'', '''')] \<and>
      chain s' = wave_mined [hi_wave] (chain_wave ''0xABC'' '''' 1690000060) \<and>
      pool s' = {#} \<and>
      new_wave_entry ''0xABC'' '''' 1690000060 \<in> set (allWaves s') \<and> \<not> mining s')"
proof -
  let ?s = "set_authorized [''0xABC''] synced"
  have h: "mounted ?s" "\<not> mining ?s" "has_ethereum ?s" "listening ?s"
    "authorized ?s = ''0xABC'' # []"
    by (simp_all add: run_simps)
  have v: "value_text ?s = ''''" "sent ?s = []" "chain ?s = [hi_wave]" "pool ?s = {#}"
    by (simp_all add: run_simps chain_wave_def)
  from h wave_displayed [OF h, of 1690000060] show ?thesis unfolding v by simp
qed

end
